theory Spec2Isabelle
  imports Complex_Main "HOL-Library.Char_ord" "HOL-Library.List_Lexorder"
    "HOL-Library.Product_Lexorder" "HOL-Library.AList"
begin

unbundle bit_operations_syntax

section \<open>Conventions of the embedding\<close>

text \<open>
  The theory embeds \<^verbatim>\<open>ezdxf/render/dimension.py\<close> and \<^verbatim>\<open>ezdxf/database.py\<close>.
  Python floats are idealised as real numbers: every definition computes what the
  source computes when its arithmetic is exact. Exceptions are values of the type
  \<open>pyerr\<close>; a function that may raise returns \<open>pyerr + 'a\<close>, the error on the left.
  Objects mutated in place (the DIMENSION entity, the block layout, the entity database)
  are passed in and returned updated.
\<close>

datatype pyerr =
    DXFValueError string
  | DXFUndefinedBlockError string
  | DXFTableEntryError string
  | ParallelRaysError
  | ZeroDivisionError
  | TypeError string
  | ValueError string
  | IndexError string
  | UnmodelledFormatField

definition bind :: "pyerr + 'a \<Rightarrow> ('a \<Rightarrow> pyerr + 'b) \<Rightarrow> pyerr + 'b" where
  "bind m f = (case m of Inl e \<Rightarrow> Inl e | Inr v \<Rightarrow> f v)"

section \<open>Vectors and construction tools\<close>

text \<open>
  Modelled from the spec: the module \<^verbatim>\<open>ezdxf.algebra\<close> (Vector, ConstructionRay,
  ConstructionLine, xround, UCS, PassTroughUCS) is imported by the source and is not part
  of it. The spec describes a vector as three floating point components with
  add, subtract, scale, normalize, magnitude, orthogonal, lerp and construction from an
  angle; normalising a vector of length zero fails.
\<close>

datatype Vector = Vector (vx: real) (vy: real) (vz: real)

definition vadd :: "Vector \<Rightarrow> Vector \<Rightarrow> Vector" where
  "vadd a b = Vector (vx a + vx b) (vy a + vy b) (vz a + vz b)"

definition vsub :: "Vector \<Rightarrow> Vector \<Rightarrow> Vector" where
  "vsub a b = Vector (vx a - vx b) (vy a - vy b) (vz a - vz b)"

definition vmul :: "Vector \<Rightarrow> real \<Rightarrow> Vector" where
  "vmul a s = Vector (vx a * s) (vy a * s) (vz a * s)"

definition magnitude :: "Vector \<Rightarrow> real" where
  "magnitude a = sqrt ((vx a)\<^sup>2 + (vy a)\<^sup>2 + (vz a)\<^sup>2)"

definition normalize :: "Vector \<Rightarrow> real \<Rightarrow> pyerr + Vector" where
  "normalize a len =
     (if magnitude a = 0 then Inl ZeroDivisionError else Inr (vmul a (len / magnitude a)))"

definition orthogonal :: "Vector \<Rightarrow> Vector" where
  "orthogonal a = Vector (- vy a) (vx a) (vz a)"

definition lerp :: "Vector \<Rightarrow> Vector \<Rightarrow> real \<Rightarrow> Vector" where
  "lerp a b factor = vadd a (vmul (vsub b a) factor)"

definition radians :: "real \<Rightarrow> real" where
  "radians deg = deg * pi / 180"

definition from_deg_angle :: "real \<Rightarrow> real \<Rightarrow> Vector" where
  "from_deg_angle angle len = Vector (cos (radians angle) * len) (sin (radians angle) * len) 0"

text \<open>
  Modelled from the spec: a ConstructionRay is a point and a direction in the plane and
  stands for an infinite line. Two rays are intersected by solving the two parametric
  line equations; when the directions are parallel (cross product zero) there is no
  solution and the intersection fails.
\<close>

datatype ConstructionRay = ConstructionRay (location: Vector) (direction: Vector)

definition ray_from_angle :: "Vector \<Rightarrow> real \<Rightarrow> ConstructionRay" where
  "ray_from_angle p angle = ConstructionRay (Vector (vx p) (vy p) 0) (Vector (cos angle) (sin angle) 0)"

definition cross2 :: "Vector \<Rightarrow> Vector \<Rightarrow> real" where
  "cross2 a b = vx a * vy b - vy a * vx b"

definition ray_intersect :: "ConstructionRay \<Rightarrow> ConstructionRay \<Rightarrow> pyerr + Vector" where
  "ray_intersect r1 r2 =
     (let d1 = direction r1; d2 = direction r2; c = cross2 d1 d2
      in if c = 0 then Inl ParallelRaysError
         else let t = cross2 (vsub (location r2) (location r1)) d2 / c
              in Inr (vadd (location r1) (vmul d1 t)))"

text \<open>
  Modelled from the spec: a ConstructionLine has two finite end points; two lines
  intersect in a point or not at all, and a point is accepted only when it falls within
  the extent of both segments (parameter range 0 to 1 on each).
\<close>

datatype ConstructionLine = ConstructionLine (line_start: Vector) (line_end: Vector)

definition line_intersect :: "ConstructionLine \<Rightarrow> ConstructionLine \<Rightarrow> Vector option" where
  "line_intersect l1 l2 =
     (let p = Vector (vx (line_start l1)) (vy (line_start l1)) 0;
          q = Vector (vx (line_start l2)) (vy (line_start l2)) 0;
          d1 = vsub (Vector (vx (line_end l1)) (vy (line_end l1)) 0) p;
          d2 = vsub (Vector (vx (line_end l2)) (vy (line_end l2)) 0) q;
          c = cross2 d1 d2
      in if c = 0 then None
         else let t = cross2 (vsub q p) d2 / c;
                  u = cross2 (vsub q p) d1 / c
              in if 0 \<le> t \<and> t \<le> 1 \<and> 0 \<le> u \<and> u \<le> 1
                 then Some (vadd p (vmul d1 t)) else None)"

text \<open>
  Modelled from the spec: a coordinate transform maps a point of the working (user)
  coordinate system to world and to object coordinates; the pass-through variant is the
  identity and has the default drawing-plane normal as its up-vector.
\<close>

record UCS =
  uz :: Vector
  to_wcs :: "Vector \<Rightarrow> Vector"
  to_ocs :: "Vector \<Rightarrow> Vector"

definition PassTroughUCS :: UCS where
  "PassTroughUCS = \<lparr>uz = Vector 0 0 1, to_wcs = (\<lambda>p. p), to_ocs = (\<lambda>p. p)\<rparr>"

section \<open>Text formatting\<close>

subsection \<open>Python string operations used by the source\<close>

definition round_half_even :: "real \<Rightarrow> int" where
  "round_half_even v =
     (let f = \<lfloor>v\<rfloor>; d = v - of_int f
      in if d < 1 / 2 then f else if 1 / 2 < d then f + 1 else if even f then f else f + 1)"

definition digit_char :: "nat \<Rightarrow> char" where
  "digit_char d = ''0123456789'' ! d"

fun str_nat :: "nat \<Rightarrow> string" where
  "str_nat n = (if n < 10 then [digit_char n] else str_nat (n div 10) @ [digit_char (n mod 10)])"

definition zfill :: "nat \<Rightarrow> string \<Rightarrow> string" where
  "zfill w s = replicate (w - length s) (CHR ''0'') @ s"

text \<open>Python's \<^verbatim>\<open>"{:.<prec>f}".format(v)\<close>: fixed point notation with \<open>prec\<close> decimals,
  the exact value rounded half to even.\<close>

definition format_f :: "nat \<Rightarrow> real \<Rightarrow> string" where
  "format_f prec v =
     (let scaled = nat (round_half_even (\<bar>v\<bar> * 10 ^ prec));
          ip = scaled div 10 ^ prec;
          fp = scaled mod 10 ^ prec
      in (if v < 0 then ''-'' else '''') @ str_nat ip @
         (if prec = 0 then '''' else ''.'' @ zfill prec (str_nat fp)))"

text \<open>\<^verbatim>\<open>old in s\<close> for strings.\<close>

fun contains :: "string \<Rightarrow> string \<Rightarrow> bool" where
  "contains old [] = (old = [])"
| "contains old (c # cs) = (take (length old) (c # cs) = old \<or> contains old cs)"

text \<open>\<^verbatim>\<open>s.replace(old, new, 1)\<close> for a non-empty \<open>old\<close>.\<close>

fun replace_first :: "string \<Rightarrow> string \<Rightarrow> string \<Rightarrow> string" where
  "replace_first old new [] = []"
| "replace_first old new (c # cs) =
     (if take (length old) (c # cs) = old then new @ drop (length old) (c # cs)
      else c # replace_first old new cs)"

text \<open>\<^verbatim>\<open>s.replace('.', new)\<close>: every occurrence of the one character is replaced.\<close>

definition replace_char :: "char \<Rightarrow> string \<Rightarrow> string \<Rightarrow> string" where
  "replace_char old new s = concat (map (\<lambda>c. if c = old then new else [c]) s)"

text \<open>
  \<^verbatim>\<open>fmt.format(arg)\<close> with one positional argument. Doubled braces are literal braces,
  \<^verbatim>\<open>{}\<close> is the next automatically numbered field (a second one has no argument), a
  single closing brace is an error. Fields with a name, an index or a format
  specification are outside the model and give \<open>UnmodelledFormatField\<close>.
\<close>

fun str_format :: "string \<Rightarrow> string \<Rightarrow> nat \<Rightarrow> pyerr + string" where
  "str_format [] arg n = Inr []"
| "str_format [c] arg n =
     (if c = CHR ''{'' then Inl (ValueError ''Single { encountered in format string'')
      else if c = CHR ''}'' then Inl (ValueError ''Single } encountered in format string'')
      else Inr [c])"
| "str_format (c # d # cs) arg n =
     (if c = CHR ''{'' \<and> d = CHR ''{'' then bind (str_format cs arg n) (\<lambda>r. Inr (c # r))
      else if c = CHR ''{'' \<and> d = CHR ''}'' then
        (if n = 0 then bind (str_format cs arg (Suc n)) (\<lambda>r. Inr (arg @ r))
         else Inl (IndexError ''tuple index out of range''))
      else if c = CHR ''{'' then Inl UnmodelledFormatField
      else if c = CHR ''}'' \<and> d = CHR ''}'' then bind (str_format cs arg n) (\<lambda>r. Inr (c # r))
      else if c = CHR ''}'' then Inl (ValueError ''Single } encountered in format string'')
      else bind (str_format (d # cs) arg n) (\<lambda>r. Inr (c # r)))"

subsection \<open>Helpers of \<^verbatim>\<open>ezdxf.tools\<close> and \<^verbatim>\<open>ezdxf.algebra\<close>\<close>

text \<open>
  Modelled from the spec: \<^verbatim>\<open>xround\<close> is imported from \<^verbatim>\<open>ezdxf.algebra\<close>; the spec
  calls it the optional rounding to a unit increment. An increment of zero rounds to
  a whole number.
\<close>

definition xround :: "real \<Rightarrow> real \<Rightarrow> real" where
  "xround v rounding =
     (if rounding = 0 then of_int (round_half_even v)
      else of_int (round_half_even (v * (1 / rounding))) / (1 / rounding))"

text \<open>
  Modelled from the spec: \<^verbatim>\<open>suppress_zeros\<close> is imported from \<^verbatim>\<open>ezdxf.tools\<close>; the
  spec names it the suppression of leading and trailing zeros, and the source's comment
  the removal of pending zeros as in \<^verbatim>\<open>'0.000000'\<close>. With neither flag the text is
  returned as it is. Leading zeros are dropped after the sign, trailing zeros after a
  decimal point, then a dangling decimal point; an empty rest stands for zero.
\<close>

definition suppress_zeros :: "string \<Rightarrow> bool \<Rightarrow> bool \<Rightarrow> string" where
  "suppress_zeros s leading trailing =
     (if \<not> leading \<and> \<not> trailing then s
      else let sign = (if s \<noteq> [] \<and> (hd s = CHR ''-'' \<or> hd s = CHR ''+'') then [hd s] else []);
               body = (if sign = [] then s else tl s);
               body = (if leading then dropWhile (\<lambda>c. c = CHR ''0'') body else body);
               body = (if trailing \<and> CHR ''.'' \<in> set body
                       then rev (dropWhile (\<lambda>c. c = CHR ''0'') (rev body)) else body);
               body = (if body \<noteq> [] \<and> last body = CHR ''.'' then butlast body else body)
           in if body = [] then ''0'' else sign @ body)"

subsection \<open>The function \<^verbatim>\<open>format_text\<close>\<close>

text \<open>
  The helper \<^verbatim>\<open>raise_decimals\<close> of \<^verbatim>\<open>ezdxf.tools\<close> is not part of the source and the
  spec is silent on it: it is the parameter \<open>raise_decimals\<close>, applied only when
  \<open>raisedec\<close> is set.
\<close>

definition format_text ::
  "(string \<Rightarrow> string) \<Rightarrow> real \<Rightarrow> real option \<Rightarrow> int option \<Rightarrow> int \<Rightarrow> string \<Rightarrow> string \<Rightarrow> bool
     \<Rightarrow> pyerr + string" where
  "format_text raise_decimals value dimrnd dimdec dimzin dimdsep dimpost raisedec =
     (let value = (case dimrnd of None \<Rightarrow> value | Some r \<Rightarrow> xround value r);
          dimzin = (case dimdec of None \<Rightarrow> dimzin OR 8 | Some d \<Rightarrow> dimzin)
      in bind (case dimdec of
                 None \<Rightarrow> Inr (format_f 6 value)
               | Some d \<Rightarrow> if d < 0 then Inl (ValueError ''Format specifier missing precision'')
                           else Inr (format_f (nat d) value))
           (\<lambda>text.
              let leading = (dimzin AND 4 \<noteq> 0);
                  pending = (dimzin AND 8 \<noteq> 0);
                  text = suppress_zeros text leading pending;
                  text = (if raisedec then raise_decimals text else text);
                  text = (if dimdsep \<noteq> ''.'' then replace_char (CHR ''.'') dimdsep text else text)
              in if dimpost \<noteq> '''' then
                   (if contains ''<>'' dimpost
                    then str_format (replace_first ''<>'' ''{}'' dimpost) text 0
                    else Inl (DXFValueError (''Invalid dimpost string: '' @ dimpost)))
                 else Inr text))"

section \<open>Collaborators of the renderer\<close>

text \<open>
  The renderer reads a resolved dimension style, a DIMENSION entity and its drawing, and
  appends primitives to a block layout. Their classes are not part of the source; the
  records below hold what the source reads from them and writes to them.
\<close>

datatype attr = AInt int | AReal real | AStr string | AVec Vector

type_synonym attribs = "(string \<times> attr) list"

text \<open>\<^verbatim>\<open>attribs.update(dxfattribs)\<close> on dictionaries that keep insertion order.\<close>

definition update_attribs :: "attribs \<Rightarrow> attribs \<Rightarrow> attribs" where
  "update_attribs a b = foldl (\<lambda>m kv. AList.update (fst kv) (snd kv) m) a b"

text \<open>
  The style lookups \<^verbatim>\<open>dim_style.get(name, default)\<close>: a field is \<open>None\<close> when the
  style chain gives no value, and the default of the call site applies. The variables
  \<^verbatim>\<open>dimtsz\<close> and \<^verbatim>\<open>dimasz\<close> are read without a default.
\<close>

record DimStyleOverride =
  dimscale :: "real option"
  dimlfac :: "real option"
  dimtxsty :: "string option"
  dimtxt :: "real option"
  dimgap :: "real option"
  dimclrt :: "int option"
  dimjust :: "int option"
  dimtad :: "int option"
  dimtmove :: "int option"
  dimtih :: "int option"
  dimtoh :: "int option"
  dimtix :: "int option"
  dimtsz :: real
  dimasz :: real
  get_arrow_names :: "string \<times> string"
  dimclrd :: "int option"
  dimdle :: "real option"
  dimltype :: "string option"
  dimlwd :: "int option"
  dimsd1 :: "int option"
  dimsd2 :: "int option"
  dimclre :: "int option"
  dimltex1 :: "string option"
  dimltex2 :: "string option"
  dimlwe :: "int option"
  dimse1 :: "int option"
  dimse2 :: "int option"
  dimexe :: "real option"
  dimexo :: "real option"
  dimexfix :: "int option"
  dimexlen :: "real option"
  dimrnd :: "real option"
  dimdec :: "int option"
  dimzin :: "int option"
  dimdsep :: "string option"
  dimpost :: "string option"

definition get :: "'a option \<Rightarrow> 'a \<Rightarrow> 'a" where
  "get field dflt = (case field of None \<Rightarrow> dflt | Some v \<Rightarrow> v)"

record TextStyle =
  style_height :: "real option"
  style_width :: "real option"

record Drawing =
  dxfversion :: string
  styles :: "string \<rightharpoonup> TextStyle"
  blocks :: "string \<Rightarrow> bool"

text \<open>
  The DIMENSION entity. \<open>dxf_\<close> fields are the attributes \<^verbatim>\<open>dimension.dxf.*\<close>, an
  optional one is \<open>None\<close> while it is not set. \<open>dim_type\<close> is the property
  \<^verbatim>\<open>dimension.dim_type\<close>, \<open>user_location_override_flag\<close> the flag state
  \<^verbatim>\<open>get_flag_state(USER_LOCATION_OVERRIDE, name='dimtype')\<close>, \<open>dimstyle_override\<close> the result
  of the method of that name.
\<close>

record Dimension =
  ent_drawing :: Drawing
  dimstyle_override :: DimStyleOverride
  dim_type :: int
  user_location_override_flag :: bool
  dxf_color :: int
  dxf_layer :: string
  dxf_text :: string
  dxf_angle :: "real option"
  dxf_text_rotation :: "real option"
  dxf_align :: "int option"
  dxf_defpoint :: Vector
  dxf_defpoint2 :: Vector
  dxf_defpoint3 :: Vector
  dxf_text_midpoint :: "Vector option"
  dxf_geometry :: string
  dxf_extrusion :: "Vector option"

text \<open>The primitives a block layout accepts, in the order they were added.\<close>

datatype primitive =
    Line Vector Vector attribs
  | MText string attribs
  | Text string attribs Vector string
  | Point Vector attribs
  | BlockRef string Vector attribs
  | ArrowBlockRef string Vector real real attribs
  | Arrow string Vector real real attribs

record BlockLayout =
  block_name :: string
  entities :: "primitive list"

definition append_entity :: "BlockLayout \<Rightarrow> primitive \<Rightarrow> BlockLayout" where
  "append_entity b e = b\<lparr>entities := entities b @ [e]\<rparr>"

text \<open>
  Module level names the source imports and the spec treats as external static data:
  the arrow registry \<^verbatim>\<open>ARROWS\<close> with \<^verbatim>\<open>connection_point\<close>, constants of
  \<^verbatim>\<open>ezdxf.lldxf.const\<close>, the option \<^verbatim>\<open>default_dimension_text_style\<close> and the helper
  \<^verbatim>\<open>raise_decimals\<close>. They are parameters of the model.
\<close>

record Env =
  in_ARROWS :: "string \<Rightarrow> bool"
  has_extension_line :: "string \<Rightarrow> bool"
  in_ORIGIN_ZERO :: "string \<Rightarrow> bool"
  ARROWS_oblique :: string
  connection_point :: "string \<Rightarrow> Vector \<Rightarrow> real \<Rightarrow> real \<Rightarrow> Vector"
  LINEWEIGHT_BYBLOCK :: int
  MTEXT_ALIGN_FLAGS :: "string \<rightharpoonup> int"
  default_dimension_text_style :: string
  raise_decimals :: "string \<Rightarrow> string"

section \<open>TextBox\<close>

record TextBox =
  center :: Vector
  corners :: "Vector \<times> Vector \<times> Vector \<times> Vector"

definition TextBox_init :: "Vector \<Rightarrow> real \<Rightarrow> real \<Rightarrow> real \<Rightarrow> real \<Rightarrow> TextBox" where
  "TextBox_init c width height angle gap =
     (let w2 = from_deg_angle angle (width / 2 + gap);
          h2 = from_deg_angle (angle + 90) (height / 2 + gap)
      in \<lparr>center = c,
          corners = (vsub (vsub c w2) h2,
                     vsub (vadd c w2) h2,
                     vadd (vadd c w2) h2,
                     vadd (vsub c w2) h2)\<rparr>)"

definition border_lines :: "TextBox \<Rightarrow> ConstructionLine list" where
  "border_lines tb =
     (case corners tb of (p1, p2, p3, p4) \<Rightarrow>
        [ConstructionLine p1 p2, ConstructionLine p2 p3,
         ConstructionLine p3 p4, ConstructionLine p4 p1])"

text \<open>
  Modelled from the spec: the result set and \<^verbatim>\<open>sorted\<close> rest on the equality and
  the order of Vector, which are not part of the source. With exact arithmetic coincident
  points are equal points, and the order is the lexicographic one by x, then y, then z
  that the spec names.
\<close>

definition vector_key :: "Vector \<Rightarrow> real \<times> real \<times> real" where
  "vector_key v = (vx v, vy v, vz v)"

definition intersect :: "TextBox \<Rightarrow> ConstructionLine \<Rightarrow> Vector list" where
  "intersect tb line =
     sort_key vector_key
       (remdups (concat (map (\<lambda>border_line.
                                case line_intersect line border_line of
                                  None \<Rightarrow> [] | Some p \<Rightarrow> [p])
                             (border_lines tb))))"

section \<open>DimensionBase\<close>

text \<open>
  The attributes of \<^verbatim>\<open>self\<close> that \<^verbatim>\<open>DimensionBase.__init__\<close> sets. The drawing is reached
  through the entity (\<open>ent_drawing (dimension self)\<close>), as is its version string.
\<close>

record DimensionBase =
  dimension :: Dimension
  supports_dxf_r2000 :: bool
  block :: BlockLayout
  dim_style :: DimStyleOverride
  ucs :: UCS
  requires_extrusion :: bool
  user_location_override :: bool
  default_color :: int
  dim_scale :: real
  dim_measurement_factor :: real
  text_style_name :: string
  text_style :: TextStyle
  text_height :: real
  text_width_factor :: real
  text_gap :: real
  text_rotation :: "real option"
  text_color :: int
  text_halign :: int
  text_valign :: int
  text_movement_rule :: int
  text_inside_horizontal :: int
  text_outside_horizontal :: int
  force_text_inside :: bool
  tick_size :: real
  arrow1_name :: "string option"
  arrow2_name :: "string option"
  arrow_size :: real
  dim_line_color :: int
  dim_line_extension :: bool
  dim_linetype :: "string option"
  dim_lineweight :: int
  suppress_dim1_line :: bool
  suppress_dim2_line :: bool
  ext_line_color :: int
  ext1_linetype_name :: "string option"
  ext2_linetype_name :: "string option"
  ext_lineweight :: int
  suppress_ext1_line :: bool
  suppress_ext2_line :: bool
  ext_line_extension :: real
  ext_line_offset :: real
  ext_line_fixed :: bool
  ext_line_length :: bool

text \<open>The property \<^verbatim>\<open>char_height\<close>, from the two attributes of \<^verbatim>\<open>self\<close> it reads.\<close>

definition char_height :: "DimStyleOverride \<Rightarrow> TextStyle \<Rightarrow> real" where
  "char_height ds ts =
     (let height = get (style_height ts) 0
      in if height = 0 then get (dimtxt ds) 1 else height)"

text \<open>Python's \<^verbatim>\<open>float(b)\<close> of a truth value, as in \<^verbatim>\<open>direction * True\<close>.\<close>

definition float_of_bool :: "bool \<Rightarrow> real" where
  "float_of_bool b = (if b then 1 else 0)"

definition DimensionBase_init ::
  "Env \<Rightarrow> Dimension \<Rightarrow> BlockLayout \<Rightarrow> UCS option \<Rightarrow> DimStyleOverride option
     \<Rightarrow> pyerr + DimensionBase" where
  "DimensionBase_init env dimen blk ucs_arg override =
     (let dwg = ent_drawing dimen;
          ds = (case override of Some ov \<Rightarrow> ov | None \<Rightarrow> dimstyle_override dimen);
          u = (case ucs_arg of Some u' \<Rightarrow> u' | None \<Rightarrow> PassTroughUCS);
          req = (uz u \<noteq> Vector 0 0 1);
          dimen = (if req then dimen\<lparr>dxf_extrusion := Some (uz u)\<rparr> else dimen);
          dcolor = dxf_color dimen;
          sname = get (dimtxsty ds) (default_dimension_text_style env)
      in case styles dwg sname of
           None \<Rightarrow> Inl (DXFTableEntryError sname)
         | Some ts \<Rightarrow>
             Inr \<lparr>dimension = dimen,
                  supports_dxf_r2000 = (dxfversion dwg \<ge> ''AC1015''),
                  block = blk,
                  dim_style = ds,
                  ucs = u,
                  requires_extrusion = req,
                  user_location_override = user_location_override_flag dimen,
                  default_color = dcolor,
                  dim_scale = get (dimscale ds) 1,
                  dim_measurement_factor = get (dimlfac ds) 1,
                  text_style_name = sname,
                  text_style = ts,
                  text_height = char_height ds ts,
                  text_width_factor = get (style_width ts) 1,
                  text_gap = get (dimgap ds) 0.625,
                  text_rotation = dxf_text_rotation dimen,
                  text_color = get (dimclrt ds) dcolor,
                  text_halign = get (dimjust ds) 0,
                  text_valign = get (dimtad ds) 0,
                  text_movement_rule = get (dimtmove ds) 0,
                  text_inside_horizontal = get (dimtih ds) 0,
                  text_outside_horizontal = get (dimtoh ds) 0,
                  force_text_inside = (get (dimtix ds) 0 \<noteq> 0),
                  tick_size = dimtsz ds,
                  arrow1_name = (if dimtsz ds > 0 then None else Some (fst (get_arrow_names ds))),
                  arrow2_name = (if dimtsz ds > 0 then None else Some (snd (get_arrow_names ds))),
                  arrow_size = dimasz ds,
                  dim_line_color = get (dimclrd ds) dcolor,
                  dim_line_extension = (get (dimdle ds) 0 \<noteq> 0),
                  dim_linetype = dimltype ds,
                  dim_lineweight = get (dimlwd ds) (LINEWEIGHT_BYBLOCK env),
                  suppress_dim1_line = (get (dimsd1 ds) 0 \<noteq> 0),
                  suppress_dim2_line = (get (dimsd2 ds) 0 \<noteq> 0),
                  ext_line_color = get (dimclre ds) dcolor,
                  ext1_linetype_name = dimltex1 ds,
                  ext2_linetype_name = dimltex2 ds,
                  ext_lineweight = get (dimlwe ds) (LINEWEIGHT_BYBLOCK env),
                  suppress_ext1_line = (get (dimse1 ds) 0 \<noteq> 0),
                  suppress_ext2_line = (get (dimse2 ds) 0 \<noteq> 0),
                  ext_line_extension = get (dimexe ds) 0,
                  ext_line_offset = get (dimexo ds) 0,
                  ext_line_fixed = (get (dimexfix ds) 0 \<noteq> 0),
                  ext_line_length = (get (dimexlen ds) (get (dimexe ds) 0) \<noteq> 0)\<rparr>)"

definition text_width :: "'a DimensionBase_scheme \<Rightarrow> string \<Rightarrow> real" where
  "text_width self txt =
     (let char_width = text_height self * text_width_factor self
      in of_nat (length txt) * char_width)"

definition default_attributes :: "'a DimensionBase_scheme \<Rightarrow> attribs" where
  "default_attributes self =
     [(''layer'', AStr (dxf_layer (dimension self))), (''color'', AInt (dxf_color (dimension self)))]"

definition wcs :: "'a DimensionBase_scheme \<Rightarrow> Vector \<Rightarrow> Vector" where
  "wcs self point = to_wcs (ucs self) point"

definition ocs :: "'a DimensionBase_scheme \<Rightarrow> Vector \<Rightarrow> Vector" where
  "ocs self point = to_ocs (ucs self) point"

text \<open>The method \<^verbatim>\<open>DimensionBase.format_text\<close>, which calls the function of the same name.\<close>

definition DimensionBase_format_text :: "Env \<Rightarrow> 'a DimensionBase_scheme \<Rightarrow> real \<Rightarrow> pyerr + string" where
  "DimensionBase_format_text env self value =
     format_text (raise_decimals env) value
       (dimrnd (dim_style self)) (dimdec (dim_style self)) (get (dimzin (dim_style self)) 0)
       (get (dimdsep (dim_style self)) ''.'') (get (dimpost (dim_style self)) ''<>'') False"

definition text_override :: "Env \<Rightarrow> 'a DimensionBase_scheme \<Rightarrow> real \<Rightarrow> pyerr + string" where
  "text_override env self measurement =
     (let txt = dxf_text (dimension self)
      in if txt = '' '' then Inr ''''
         else if txt = '''' \<or> txt = ''<>'' then DimensionBase_format_text env self measurement
         else Inr txt)"

definition add_line :: "'a DimensionBase_scheme \<Rightarrow> Vector \<Rightarrow> Vector \<Rightarrow> attribs \<Rightarrow> 'a DimensionBase_scheme" where
  "add_line self start end_p dxfattribs =
     (let attribs = update_attribs (default_attributes self) dxfattribs
      in self\<lparr>block := append_entity (block self) (Line (wcs self start) (wcs self end_p) attribs)\<rparr>)"

definition add_blockref ::
  "Env \<Rightarrow> 'a DimensionBase_scheme \<Rightarrow> string \<Rightarrow> Vector \<Rightarrow> real \<Rightarrow> real \<Rightarrow> attribs
     \<Rightarrow> pyerr + 'a DimensionBase_scheme" where
  "add_blockref env self name ins rotation scale dxfattribs =
     (if in_ARROWS env name then
        Inr (self\<lparr>block := append_entity (block self) (ArrowBlockRef name ins scale rotation dxfattribs)\<rparr>)
      else if \<not> blocks (ent_drawing (dimension self)) name then
        Inl (DXFUndefinedBlockError name)
      else
        let attribs = default_attributes self;
            attribs = AList.update ''rotation'' (AReal rotation) attribs;
            attribs = (if scale \<noteq> 1
                       then AList.update ''yscale'' (AReal scale) (AList.update ''xscale'' (AReal scale) attribs)
                       else attribs);
            attribs = (if requires_extrusion self
                       then AList.update ''extrusion'' (AVec (uz (ucs self))) attribs else attribs);
            attribs = update_attribs attribs dxfattribs
        in Inr (self\<lparr>block := append_entity (block self) (BlockRef name (ocs self ins) attribs)\<rparr>))"

definition add_text ::
  "Env \<Rightarrow> 'a DimensionBase_scheme \<Rightarrow> string \<Rightarrow> Vector \<Rightarrow> real \<Rightarrow> string \<Rightarrow> attribs
     \<Rightarrow> 'a DimensionBase_scheme" where
  "add_text env self txt pos rotation align dxfattribs =
     (let attribs = default_attributes self;
          attribs = AList.update ''rotation'' (AReal rotation) attribs;
          attribs = AList.update ''style'' (AStr (text_style_name self)) attribs;
          h = char_height (dim_style self) (text_style self)
      in if dxfversion (ent_drawing (dimension self)) > ''AC1009'' then
           let attribs = AList.update ''char_height'' (AReal h) attribs;
               attribs = AList.update ''insert'' (AVec pos) attribs;
               attribs = AList.update ''attachment_point''
                           (AInt (get (dxf_align (dimension self)) (get (MTEXT_ALIGN_FLAGS env align) 5)))
                           attribs;
               attribs = update_attribs attribs dxfattribs
           in self\<lparr>block := append_entity (block self) (MText txt attribs)\<rparr>
         else
           let attribs = AList.update ''height'' (AReal h) attribs;
               attribs = update_attribs attribs dxfattribs
           in self\<lparr>block := append_entity (block self) (Text txt attribs (ocs self pos) align)\<rparr>)"

definition add_defpoints :: "'a DimensionBase_scheme \<Rightarrow> Vector list \<Rightarrow> 'a DimensionBase_scheme" where
  "add_defpoints self points =
     foldl (\<lambda>s point. s\<lparr>block := append_entity (block s)
                                   (Point (wcs s point) [(''layer'', AStr ''DEFPOINTS'')])\<rparr>)
           self points"

definition add_leader ::
  "'a DimensionBase_scheme \<Rightarrow> Vector \<Rightarrow> Vector \<Rightarrow> Vector \<Rightarrow> attribs \<Rightarrow> 'a DimensionBase_scheme" where
  "add_leader self p1 p2 p3 dxfattribs = add_line (add_line self p1 p2 dxfattribs) p2 p3 dxfattribs"

section \<open>LinearDimension\<close>

text \<open>
  The attributes \<^verbatim>\<open>LinearDimension.__init__\<close> adds. \<open>self_text\<close> is \<^verbatim>\<open>self.text\<close>;
  \<open>dim_text_width\<close> is \<open>None\<close> while the attribute does not exist.
\<close>

record LinearDimension = DimensionBase +
  dim_line_angle :: real
  dim_line_angle_rad :: real
  ext_line_angle :: real
  ext_line_angle_rad :: real
  ext1_line_start :: Vector
  ext2_line_start :: Vector
  dim_line_start :: Vector
  dim_line_end :: Vector
  measurement :: real
  self_text :: string
  text_location :: "Vector option"
  text_box :: "TextBox option"
  text_outside :: bool
  required_text_space :: "real option"
  dim_text_width :: "real option"
  required_arrows_space :: real
  arrows_outside :: bool

definition vertical_factor :: "'a LinearDimension_scheme \<Rightarrow> real" where
  "vertical_factor self =
     (if text_valign self = 0 then 0
      else if text_valign self = 4 then - 1
      else 1)"

definition text_vertical_distance :: "'a LinearDimension_scheme \<Rightarrow> real" where
  "text_vertical_distance self = (text_height self / 2 + text_gap self) * vertical_factor self"

text \<open>
  \<^verbatim>\<open>get_text_location\<close> returns the text midpoint and, since it may write the
  attribute \<^verbatim>\<open>text_midpoint\<close> of the entity, the updated \<^verbatim>\<open>self\<close>. Reading an
  attribute that is not set is the error of \<^verbatim>\<open>get_dxf_attrib\<close> without a default.
\<close>

definition get_text_location ::
  "'a LinearDimension_scheme \<Rightarrow> real \<Rightarrow> bool \<Rightarrow> pyerr + (Vector \<times> 'a LinearDimension_scheme)" where
  "get_text_location self txt_width txt_outside =
     (let start = dim_line_start self;
          end_p = dim_line_end self;
          lift = (\<lambda>loc vdist s.
                    bind (normalize (orthogonal (vsub end_p start)) vdist)
                      (\<lambda>ortho. Inr (vadd loc ortho, s)))
      in if user_location_override self then
           (case dxf_text_midpoint (dimension self) of
              None \<Rightarrow> Inl (DXFValueError ''text_midpoint'')
            | Some loc \<Rightarrow>
                if text_movement_rule self = 0 then lift loc (text_vertical_distance self) self
                else Inr (loc, self))
         else
           let offset = text_gap self + arrow_size self + txt_width / 2
           in bind (if text_halign self = 1 then
                      bind (normalize (vsub end_p start) offset) (\<lambda>v. Inr (vadd start v))
                    else if text_halign self = 2 then
                      bind (normalize (vsub start end_p) offset) (\<lambda>v. Inr (vadd end_p v))
                    else if text_halign self = 3 \<or> text_halign self = 4 then
                      (let dist = text_gap self + text_height self / 2
                       in bind (normalize (vsub start end_p) dist)
                            (\<lambda>v. let off = vmul v (vertical_factor self)
                                  in if text_halign self = 3 then Inr (vadd start off)
                                     else Inr (vadd end_p off)))
                    else Inr (lerp start end_p (1 / 2)))
                (\<lambda>loc.
                   let s = self\<lparr>dimension := (dimension self)\<lparr>dxf_text_midpoint := Some loc\<rparr>\<rparr>;
                       vdist = (if text_halign self = 0 \<or> text_halign self = 1 \<or> text_halign self = 2
                                then text_vertical_distance self else offset)
                   in lift loc vdist s))"

definition LinearDimension_init ::
  "Env \<Rightarrow> Dimension \<Rightarrow> BlockLayout \<Rightarrow> UCS option \<Rightarrow> DimStyleOverride option
     \<Rightarrow> pyerr + LinearDimension" where
  "LinearDimension_init env dimen blk ucs_arg override =
     bind (DimensionBase_init env dimen blk ucs_arg override)
       (\<lambda>base.
          let dl_angle = get (dxf_angle (dimension base)) 0;
              dl_angle_rad = radians dl_angle;
              el_angle = dl_angle + 90;
              el_angle_rad = radians el_angle;
              rot = (case text_rotation base of
                       Some r \<Rightarrow> r
                     | None \<Rightarrow> if text_halign base = 3 \<or> text_halign base = 4
                               then dl_angle + 90 else dl_angle);
              e1 = dxf_defpoint2 (dimension base);
              e2 = dxf_defpoint3 (dimension base);
              ext1_ray = ray_from_angle e1 el_angle_rad;
              ext2_ray = ray_from_angle e2 el_angle_rad
          in bind (if user_location_override base \<and> text_movement_rule base = 0 then
                     (case dxf_text_midpoint (dimension base) of
                        None \<Rightarrow> Inl (DXFValueError ''text_midpoint'')
                      | Some m \<Rightarrow> Inr (ray_from_angle m dl_angle_rad))
                   else Inr (ray_from_angle (dxf_defpoint (dimension base)) dl_angle_rad))
               (\<lambda>dim_line_ray.
                  bind (ray_intersect dim_line_ray ext1_ray)
               (\<lambda>dl_start.
                  bind (ray_intersect dim_line_ray ext2_ray)
               (\<lambda>dl_end.
                  let base = base\<lparr>dimension := (dimension base)\<lparr>dxf_defpoint := dl_start\<rparr>,
                                  text_rotation := Some rot\<rparr>;
                      meas = magnitude (vsub dl_end dl_start)
                  in bind (text_override env base (meas * dim_measurement_factor base))
               (\<lambda>txt.
                  let req_arrows = 2 * arrow_size base + text_gap base;
                      self = DimensionBase.extend base
                               (LinearDimension.fields dl_angle dl_angle_rad el_angle el_angle_rad
                                  e1 e2 dl_start dl_end meas txt None None False None None
                                  req_arrows (req_arrows > meas))
                  in if txt \<noteq> '''' then
                       (let w = text_width self txt;
                            req = w + 2 * (arrow_size self + text_gap self);
                            outside = (if \<not> force_text_inside self then req > meas else False);
                            self = self\<lparr>dim_text_width := Some w,
                                        required_text_space := Some req,
                                        text_outside := outside\<rparr>
                        in bind (get_text_location self w outside)
                             (\<lambda>(loc, self).
                                Inr (self\<lparr>text_location := Some loc,
                                          text_box := Some (TextBox_init loc w (text_height self) rot
                                                              (text_gap self * 0.99))\<rparr>)))
                     else Inr self)))))"

definition defpoints_to_wcs :: "'a LinearDimension_scheme \<Rightarrow> pyerr + 'a LinearDimension_scheme" where
  "defpoints_to_wcs self =
     (let d = dimension self;
          d = d\<lparr>dxf_defpoint := wcs self (dxf_defpoint d)\<rparr>;
          d = d\<lparr>dxf_defpoint2 := wcs self (dxf_defpoint2 d)\<rparr>;
          d = d\<lparr>dxf_defpoint3 := wcs self (dxf_defpoint3 d)\<rparr>
      in case dxf_text_midpoint d of
           None \<Rightarrow> Inl (DXFValueError ''text_midpoint'')
         | Some m \<Rightarrow> Inr (self\<lparr>dimension := d\<lparr>dxf_text_midpoint := Some (ocs self m)\<rparr>\<rparr>))"

definition add_measurement_text ::
  "Env \<Rightarrow> 'a LinearDimension_scheme \<Rightarrow> string \<Rightarrow> Vector \<Rightarrow> real \<Rightarrow> 'a LinearDimension_scheme" where
  "add_measurement_text env self dim_text pos rotation =
     add_text env self dim_text pos rotation ''MIDDLE_CENTER'' [(''color'', AInt (text_color self))]"

text \<open>The local function \<^verbatim>\<open>order\<close> of \<^verbatim>\<open>add_dimension_line\<close>; \<open>start\<close> is the variable
  of the enclosing method at the time of the call.\<close>

definition order :: "Vector \<Rightarrow> Vector \<Rightarrow> Vector \<Rightarrow> Vector \<times> Vector" where
  "order start a b =
     (if magnitude (vsub start a) < magnitude (vsub start b) then (a, b) else (b, a))"

definition add_dimension_line ::
  "Env \<Rightarrow> 'a LinearDimension_scheme \<Rightarrow> Vector \<Rightarrow> Vector \<Rightarrow> pyerr + 'a LinearDimension_scheme" where
  "add_dimension_line env self start0 end0 =
     bind (normalize (vsub end0 start0) 1)
       (\<lambda>direction.
          let extension = vmul direction (float_of_bool (dim_line_extension self));
              start = (if (case arrow1_name self of None \<Rightarrow> True | Some n \<Rightarrow> has_extension_line env n)
                       then vsub start0 extension else start0);
              end_p = (if (case arrow2_name self of None \<Rightarrow> True | Some n \<Rightarrow> has_extension_line env n)
                       then vadd end0 extension else end0);
              attribs = [(''color'', AInt (dim_line_color self))];
              attribs = (case dim_linetype self of
                           None \<Rightarrow> attribs
                         | Some lt \<Rightarrow> AList.update ''linetype'' (AStr lt) attribs);
              attribs = (if supports_dxf_r2000 self
                         then AList.update ''lineweight'' (AInt (dim_lineweight self)) attribs
                         else attribs);
              intersection_points = (case text_box self of
                                       Some tb \<Rightarrow> intersect tb (ConstructionLine start end_p)
                                     | None \<Rightarrow> [])
          in if length intersection_points = 2 then
               (let (p1, p2) = order start (intersection_points ! 0) (intersection_points ! 1);
                    self = (if \<not> suppress_dim1_line self then add_line self start p1 attribs else self);
                    self = (if \<not> suppress_dim2_line self then add_line self p2 end_p attribs else self)
                in Inr self)
             else Inr (add_line self start end_p attribs))"

definition extension_line_points ::
  "'a LinearDimension_scheme \<Rightarrow> Vector \<Rightarrow> Vector \<Rightarrow> pyerr + (Vector \<times> Vector)" where
  "extension_line_points self start end_p =
     bind (normalize (vsub end_p start) 1)
       (\<lambda>direction.
          let start = (if ext_line_fixed self
                       then vsub end_p (vmul direction (float_of_bool (ext_line_length self)))
                       else vadd start (vmul direction (ext_line_offset self)));
              end_p = vadd end_p (vmul direction (ext_line_extension self))
          in Inr (start, end_p))"

definition add_extension_line ::
  "'a LinearDimension_scheme \<Rightarrow> Vector \<Rightarrow> Vector \<Rightarrow> string option \<Rightarrow> 'a LinearDimension_scheme" where
  "add_extension_line self start end_p linetype =
     (let attribs = [(''color'', AInt (ext_line_color self))];
          attribs = (case linetype of
                       None \<Rightarrow> attribs
                     | Some lt \<Rightarrow> AList.update ''linetype'' (AStr lt) attribs);
          attribs = (if supports_dxf_r2000 self
                     then AList.update ''lineweight'' (AInt (ext_lineweight self)) attribs
                     else attribs)
      in add_line self start end_p attribs)"

text \<open>The local function \<^verbatim>\<open>has_arrow_extension\<close> of \<^verbatim>\<open>add_arrows\<close>.\<close>

definition has_arrow_extension :: "Env \<Rightarrow> string option \<Rightarrow> bool" where
  "has_arrow_extension env name =
     (case name of None \<Rightarrow> False | Some n \<Rightarrow> in_ARROWS env n \<and> \<not> in_ORIGIN_ZERO env n)"

text \<open>
  \<^verbatim>\<open>add_arrows\<close> returns the adjusted start and end point with the updated \<^verbatim>\<open>self\<close>.
  The arrow names are \<open>None\<close> exactly when the tick size is positive
  (\<^verbatim>\<open>DimensionBase.__init__\<close>); a block reference without a name, which no
  initialised renderer asks for, is a \<open>TypeError\<close> here.
\<close>

definition add_arrows ::
  "Env \<Rightarrow> 'a LinearDimension_scheme \<Rightarrow> Vector \<Rightarrow> Vector \<Rightarrow> bool
     \<Rightarrow> pyerr + ('a LinearDimension_scheme \<times> Vector \<times> Vector)" where
  "add_arrows env self start0 end0 outside =
     (let attribs = [(''color'', AInt (dim_line_color self))]
      in bind (if tick_size self > 0 then
                 (let b = append_entity (block self)
                            (Arrow (ARROWS_oblique env) start0 (dim_line_angle self) (tick_size self * 2) attribs);
                      b = append_entity b
                            (Arrow (ARROWS_oblique env) end0 (dim_line_angle self) (tick_size self * 2) attribs)
                  in Inr (self\<lparr>block := b\<rparr>, start0, end0))
               else
                 (let scale = arrow_size self;
                      start_angle = (if outside then dim_line_angle self else dim_line_angle self + 180);
                      end_angle = (if outside then dim_line_angle self + 180 else dim_line_angle self)
                  in case (arrow1_name self, arrow2_name self) of
                       (Some n1, Some n2) \<Rightarrow>
                         bind (add_blockref env self n1 start0 start_angle scale attribs)
                           (\<lambda>self. bind (add_blockref env self n2 end0 end_angle scale attribs)
                           (\<lambda>self. if \<not> outside
                                   then Inr (self, connection_point env n1 start0 scale start_angle,
                                             connection_point env n2 end0 scale end_angle)
                                   else Inr (self, start0, end0)))
                     | _ \<Rightarrow> Inl (TypeError ''arrow name is None'')))
           (\<lambda>(self, start, end_p).
              if outside then
                bind (normalize (vsub end_p start) (arrow_size self))
                  (\<lambda>arrow_vector.
                     let self = (if has_arrow_extension env (arrow1_name self) then
                                   (let start_l = vsub start arrow_vector;
                                        end_l = vsub start_l arrow_vector
                                    in self\<lparr>block := append_entity (block self) (Line start_l end_l attribs)\<rparr>)
                                 else self);
                         self = (if has_arrow_extension env (arrow2_name self) then
                                   (let start_l = vadd end_p arrow_vector;
                                        end_l = vadd start_l arrow_vector
                                    in self\<lparr>block := append_entity (block self) (Line start_l end_l attribs)\<rparr>)
                                 else self)
                     in Inr (self, start, end_p))
              else Inr (self, start, end_p)))"

text \<open>
  \<^verbatim>\<open>render\<close>. The text location, the text box and the text rotation exist whenever
  the text is not empty (\<^verbatim>\<open>LinearDimension.__init__\<close>); a missing one is a
  \<open>TypeError\<close> here.
\<close>

definition render :: "Env \<Rightarrow> 'a LinearDimension_scheme \<Rightarrow> pyerr + 'a LinearDimension_scheme" where
  "render env self0 =
     bind (if self_text self0 \<noteq> '''' then
             (case (text_location self0, text_rotation self0, text_box self0) of
                (Some loc, Some rot, Some tb) \<Rightarrow>
                  (let self = add_measurement_text env self0 (self_text self0) loc rot
                   in if user_location_override self \<and> text_movement_rule self = 1 then
                        (let target_point = lerp (dim_line_start self) (dim_line_end self) (1 / 2)
                         in case corners tb of
                              (c0, c1, c2, c3) \<Rightarrow> Inr (add_leader self target_point c0 c1 []))
                      else Inr self)
              | _ \<Rightarrow> Inl (TypeError ''text location is None''))
           else Inr self0)
       (\<lambda>self.
     bind (if \<not> suppress_ext1_line self then
             bind (extension_line_points self (ext1_line_start self) (dim_line_start self))
               (\<lambda>(s, e). Inr (add_extension_line self s e (ext1_linetype_name self)))
           else Inr self)
       (\<lambda>self.
     bind (if \<not> suppress_ext2_line self then
             bind (extension_line_points self (ext2_line_start self) (dim_line_end self))
               (\<lambda>(s, e). Inr (add_extension_line self s e (ext2_linetype_name self)))
           else Inr self)
       (\<lambda>self.
     bind (add_arrows env self (dim_line_start self) (dim_line_end self) (arrows_outside self))
       (\<lambda>(self, dl_start, dl_end).
     bind (add_dimension_line env self dl_start dl_end)
       (\<lambda>self.
          defpoints_to_wcs
            (add_defpoints self [dim_line_start self, ext1_line_start self, ext2_line_start self]))))))"

section \<open>DimensionRenderer\<close>

text \<open>
  The renderers return nothing; their effect is on the entity and on the block, which
  the model returns. \<^verbatim>\<open>raise NotImplemented\<close> raises the constant \<^verbatim>\<open>NotImplemented\<close>,
  which is not an exception: Python answers with
  \<^verbatim>\<open>TypeError: exceptions must derive from BaseException\<close>.
\<close>

definition linear ::
  "Env \<Rightarrow> Dimension \<Rightarrow> BlockLayout \<Rightarrow> UCS option \<Rightarrow> DimStyleOverride option
     \<Rightarrow> pyerr + (Dimension \<times> BlockLayout)" where
  "linear env dimen blk ucs_arg override =
     bind (LinearDimension_init env dimen blk ucs_arg override)
       (\<lambda>r. bind (render env r) (\<lambda>self. Inr (dimension self, block self)))"

definition raise_NotImplemented :: "pyerr + 'a" where
  "raise_NotImplemented = Inl (TypeError ''exceptions must derive from BaseException'')"

definition angular ::
  "Env \<Rightarrow> Dimension \<Rightarrow> BlockLayout \<Rightarrow> UCS option \<Rightarrow> DimStyleOverride option
     \<Rightarrow> pyerr + (Dimension \<times> BlockLayout)" where
  "angular env dimen blk ucs_arg override = raise_NotImplemented"

definition diameter ::
  "Env \<Rightarrow> Dimension \<Rightarrow> BlockLayout \<Rightarrow> UCS option \<Rightarrow> DimStyleOverride option
     \<Rightarrow> pyerr + (Dimension \<times> BlockLayout)" where
  "diameter env dimen blk ucs_arg override = raise_NotImplemented"

definition radius ::
  "Env \<Rightarrow> Dimension \<Rightarrow> BlockLayout \<Rightarrow> UCS option \<Rightarrow> DimStyleOverride option
     \<Rightarrow> pyerr + (Dimension \<times> BlockLayout)" where
  "radius env dimen blk ucs_arg override = raise_NotImplemented"

definition angular3p ::
  "Env \<Rightarrow> Dimension \<Rightarrow> BlockLayout \<Rightarrow> UCS option \<Rightarrow> DimStyleOverride option
     \<Rightarrow> pyerr + (Dimension \<times> BlockLayout)" where
  "angular3p env dimen blk ucs_arg override = raise_NotImplemented"

definition ordinate ::
  "Env \<Rightarrow> Dimension \<Rightarrow> BlockLayout \<Rightarrow> UCS option \<Rightarrow> DimStyleOverride option
     \<Rightarrow> pyerr + (Dimension \<times> BlockLayout)" where
  "ordinate env dimen blk ucs_arg override = raise_NotImplemented"

text \<open>
  \<^verbatim>\<open>dispatch\<close>. The blocks section of the drawing is not part of the source:
  \<open>anon_name\<close> is the name \<^verbatim>\<open>new_anonymous_block\<close> gives the block it creates in the
  drawing. \<open>str_int\<close> is \<^verbatim>\<open>str\<close> of an integer, for the message.
\<close>

definition str_int :: "int \<Rightarrow> string" where
  "str_int i = (if i < 0 then ''-'' @ str_nat (nat (- i)) else str_nat (nat i))"

definition dispatch ::
  "Env \<Rightarrow> string \<Rightarrow> Dimension \<Rightarrow> UCS option \<Rightarrow> DimStyleOverride option
     \<Rightarrow> pyerr + (Dimension \<times> BlockLayout)" where
  "dispatch env anon_name dimen0 ucs_arg override =
     (let dwg = ent_drawing dimen0;
          blk = \<lparr>block_name = anon_name, entities = []\<rparr>;
          dimen = dimen0\<lparr>ent_drawing := dwg\<lparr>blocks := (blocks dwg)(anon_name := True)\<rparr>\<rparr>;
          dimen = dimen\<lparr>dxf_geometry := block_name blk\<rparr>;
          dtype = dim_type dimen
      in if dtype = 0 \<or> dtype = 1 then linear env dimen blk ucs_arg override
         else if dtype = 2 then angular env dimen blk ucs_arg override
         else if dtype = 3 then diameter env dimen blk ucs_arg override
         else if dtype = 4 then radius env dimen blk ucs_arg override
         else if dtype = 5 then angular3p env dimen blk ucs_arg override
         else if dtype = 6 then ordinate env dimen blk ucs_arg override
         else Inl (DXFValueError (''Unknown DIMENSION type: '' @ str_int dtype)))"

section \<open>EntityDB\<close>

text \<open>
  The database is a Python dictionary from handles to tag lists: an association list
  in insertion order, read with \<open>map_of\<close> and written with \<open>AList.update\<close>.

  The classes HandleGenerator, ExtendedTags and DXFTag are imported by the source and
  are not part of it. A handle generator is the sequence of handles its \<^verbatim>\<open>next\<close>
  returns, with the position reached. Of a tag list the model keeps the tags without
  subclass (\<^verbatim>\<open>tags.noclass\<close>); the docstring of EntityDB names the handle tag
  (code 5 or 105), and the DXF type is the value of the first tag.
\<close>

type_synonym DXFTag = "int \<times> string"

record ExtendedTags =
  noclass :: "DXFTag list"

record HandleGenerator =
  handle_seq :: "nat \<Rightarrow> string"
  seq_position :: nat

definition HandleGenerator_next :: "HandleGenerator \<Rightarrow> string \<times> HandleGenerator" where
  "HandleGenerator_next g = (handle_seq g (seq_position g), g\<lparr>seq_position := Suc (seq_position g)\<rparr>)"

record EntityDB =
  database :: "(string \<times> ExtendedTags) list"
  handles :: HandleGenerator

definition get_handle :: "ExtendedTags \<Rightarrow> pyerr + string" where
  "get_handle tags =
     (case filter (\<lambda>t. fst t = 5 \<or> fst t = 105) (noclass tags) of
        [] \<Rightarrow> Inl (DXFValueError ''No handle found.'')
      | t # ts \<Rightarrow> Inr (snd t))"

definition dxftype :: "ExtendedTags \<Rightarrow> pyerr + string" where
  "dxftype tags =
     (case noclass tags of
        [] \<Rightarrow> Inl (IndexError ''list index out of range'')
      | t # ts \<Rightarrow> Inr (snd t))"

definition contains_handle :: "EntityDB \<Rightarrow> string \<Rightarrow> bool" where
  "contains_handle self handle = (map_of (database self) handle \<noteq> None)"

definition setitem :: "EntityDB \<Rightarrow> string \<Rightarrow> ExtendedTags \<Rightarrow> EntityDB" where
  "setitem self handle tags = self\<lparr>database := AList.update handle tags (database self)\<rparr>"

text \<open>The loop of \<^verbatim>\<open>get_unique_handle\<close> has no bound: \<open>None\<close> stands for a run that
  never returns.\<close>

partial_function (option) get_unique_handle :: "EntityDB \<Rightarrow> (string \<times> EntityDB) option" where
  "get_unique_handle self =
     (let handle = fst (HandleGenerator_next (handles self));
          self' = self\<lparr>handles := snd (HandleGenerator_next (handles self))\<rparr>
      in if \<not> contains_handle self' handle then Some (handle, self')
         else get_unique_handle self')"

text \<open>\<^verbatim>\<open>add_tags\<close> returns the handle; the model adds the database and the tag list, both
  changed in place.\<close>

definition add_tags ::
  "EntityDB \<Rightarrow> ExtendedTags \<Rightarrow> (pyerr + (string \<times> EntityDB \<times> ExtendedTags)) option" where
  "add_tags self tags =
     (case get_handle tags of
        Inr handle \<Rightarrow> Some (Inr (handle, setitem self handle tags, tags))
      | Inl (DXFValueError msg) \<Rightarrow>
          (case get_unique_handle self of
             None \<Rightarrow> None
           | Some (handle, self') \<Rightarrow>
               (case dxftype tags of
                  Inl e \<Rightarrow> Some (Inl e)
                | Inr ty \<Rightarrow>
                    let handle_code = (if ty = ''DIMSTYLE'' then 105 else 5);
                        tags' = tags\<lparr>noclass := take 1 (noclass tags) @ [(handle_code, handle)]
                                                  @ drop 1 (noclass tags)\<rparr>
                    in Some (Inr (handle, setitem self' handle tags', tags'))))
      | Inl e \<Rightarrow> Some (Inl e))"

text \<open>A generator for the examples: upper-case hexadecimal numerals, counted from one.\<close>

definition hex_digit :: "nat \<Rightarrow> char" where
  "hex_digit d = ''0123456789ABCDEF'' ! d"

fun hex_str :: "nat \<Rightarrow> string" where
  "hex_str n = (if n < 16 then [hex_digit n] else hex_str (n div 16) @ [hex_digit (n mod 16)])"

definition hex_generator :: HandleGenerator where
  "hex_generator = \<lparr>handle_seq = (\<lambda>n. hex_str (Suc n)), seq_position = 0\<rparr>"

section \<open>A concrete drawing for the examples\<close>

text \<open>
  A horizontal dimension between the measurement points (0, 0) and (10, 0) with the
  dimension line through (0, 5), in a drawing of version R2000 with one text style of
  variable height, styled by tick-like arrows of size 0.18 whose connection point is
  their insertion point. \<open>example_style\<close> leaves every optional style variable to the
  default of the renderer.
\<close>

definition example_env :: Env where
  "example_env =
     \<lparr>in_ARROWS = (\<lambda>n. n = ''OBLIQUE''),
      has_extension_line = (\<lambda>n. False),
      in_ORIGIN_ZERO = (\<lambda>n. n = ''OBLIQUE''),
      ARROWS_oblique = ''OBLIQUE'',
      connection_point = (\<lambda>name ins scale rotation. ins),
      LINEWEIGHT_BYBLOCK = - 2,
      MTEXT_ALIGN_FLAGS = [''MIDDLE_CENTER'' \<mapsto> 5],
      default_dimension_text_style = ''STANDARD'',
      raise_decimals = (\<lambda>s. s)\<rparr>"

definition example_style :: DimStyleOverride where
  "example_style =
     \<lparr>dimscale = None, dimlfac = None, dimtxsty = None, dimtxt = None, dimgap = None,
      dimclrt = None, dimjust = None, dimtad = None, dimtmove = None, dimtih = None,
      dimtoh = None, dimtix = None, dimtsz = 0, dimasz = 0.18,
      get_arrow_names = (''OBLIQUE'', ''OBLIQUE''),
      dimclrd = None, dimdle = None, dimltype = None, dimlwd = None, dimsd1 = None,
      dimsd2 = None, dimclre = None, dimltex1 = None, dimltex2 = None, dimlwe = None,
      dimse1 = None, dimse2 = None, dimexe = None, dimexo = None, dimexfix = None,
      dimexlen = None, dimrnd = None, dimdec = None, dimzin = None, dimdsep = None,
      dimpost = None\<rparr>"

definition example_drawing :: Drawing where
  "example_drawing =
     \<lparr>dxfversion = ''AC1015'',
      styles = [''STANDARD'' \<mapsto> \<lparr>style_height = None, style_width = None\<rparr>],
      blocks = (\<lambda>n. False)\<rparr>"

definition example_dimension :: "DimStyleOverride \<Rightarrow> Dimension" where
  "example_dimension style =
     \<lparr>ent_drawing = example_drawing,
      dimstyle_override = style,
      dim_type = 0,
      user_location_override_flag = False,
      dxf_color = 256,
      dxf_layer = ''0'',
      dxf_text = '''',
      dxf_angle = None,
      dxf_text_rotation = None,
      dxf_align = None,
      dxf_defpoint = Vector 0 5 0,
      dxf_defpoint2 = Vector 0 0 0,
      dxf_defpoint3 = Vector 10 0 0,
      dxf_text_midpoint = None,
      dxf_geometry = '''',
      dxf_extrusion = None\<rparr>"

definition example_block :: BlockLayout where
  "example_block = \<lparr>block_name = ''*D1'', entities = []\<rparr>"

text \<open>The scenario of the spec: all three defining points on the x axis, angle 0.\<close>

definition scenario_dimension :: "DimStyleOverride \<Rightarrow> Dimension" where
  "scenario_dimension style =
     (example_dimension style)\<lparr>dxf_defpoint := Vector 0 0 0, dxf_angle := Some 0\<rparr>"

text \<open>The renderer that \<^verbatim>\<open>LinearDimension.__init__\<close> builds for the example entity.\<close>

definition example_renderer :: "DimStyleOverride \<Rightarrow> LinearDimension" where
  "example_renderer style =
     projr (LinearDimension_init example_env (example_dimension style) example_block None None)"

text \<open>A database of two entities whose handles the generator will produce again.\<close>

definition example_db :: EntityDB where
  "example_db =
     \<lparr>database = [(''1'', \<lparr>noclass = [(0, ''LINE''), (5, ''1'')]\<rparr>),
                  (''2'', \<lparr>noclass = [(0, ''CIRCLE''), (5, ''2'')]\<rparr>)],
      handles = hex_generator\<rparr>"



definition example_dimension_line :: "DimStyleOverride \<Rightarrow> LinearDimension" where
  "example_dimension_line style =
     projr (add_dimension_line example_env (example_renderer style)
              (dim_line_start (example_renderer style)) (dim_line_end (example_renderer style)))"

text \<open>The example entity with its measurement points one unit apart: too narrow for its
  text.\<close>

definition narrow_dimension :: "DimStyleOverride \<Rightarrow> Dimension" where
  "narrow_dimension style = (example_dimension style)\<lparr>dxf_defpoint3 := Vector 1 0 0\<rparr>"

section \<open>Basic facts\<close>

lemma bind_Inr [simp]: "bind (Inr a) f = f a"
  by (simp add: bind_def)

lemma bind_Inl [simp]: "bind (Inl e) f = Inl e"
  by (simp add: bind_def)

lemma bind_eq_Inr: "bind m f = Inr v \<longleftrightarrow> (\<exists>a. m = Inr a \<and> f a = Inr v)"
  by (cases m) simp_all

lemmas example_defs = example_dimension_def example_drawing_def example_env_def
  example_style_def example_block_def

lemmas eval_defs = get_def char_height_def PassTroughUCS_def ray_from_angle_def
  ray_intersect_def cross2_def vsub_def vadd_def vmul_def magnitude_def text_override_def
  DimensionBase_format_text_def DimensionBase.defs LinearDimension.defs text_width_def
  get_text_location_def lerp_def normalize_def orthogonal_def text_vertical_distance_def
  vertical_factor_def TextBox_init_def from_deg_angle_def Let_def LinearDimension_init_def
  DimensionBase_init_def

lemma trig_deg [simp]:
  "cos (radians 90) = 0" "sin (radians 90) = 1" "cos (radians 0) = 1" "sin (radians 0) = 0"
  by (simp_all add: radians_def)

lemma replicate_five: "replicate 5 c = [c, c, c, c, c]"
  by (simp add: eval_nat_numeral)

section \<open>Text formatting and text override\<close>

lemma format_f_two_decimals: "format_f 2 (314159 / 100000) = ''3.14''"
  unfolding format_f_def Let_def
  by (simp add: round_half_even_def Let_def zfill_def digit_char_def)

text \<open>The double nearest to 3.14159 is 3537115888337719 / 2^50; it formats alike.\<close>

lemma format_f_two_decimals_double:
  "format_f 2 (3537115888337719 / 1125899906842624) = ''3.14''"
  unfolding format_f_def Let_def
  by (simp add: round_half_even_def Let_def zfill_def digit_char_def)

lemma format_f_ten: "format_f 6 10 = ''10.000000''"
  unfolding format_f_def Let_def
  by (simp add: round_half_even_def Let_def zfill_def digit_char_def replicate_five)

lemma format_text_ten: "format_text rd 10 None None 0 ''.'' ''<>'' False = Inr ''10''"
  unfolding format_text_def
  by (simp add: format_f_ten suppress_zeros_def replace_char_def)

text \<open>
  Claim C7. \<^verbatim>\<open>format_text\<close> of 3.14159 with \<^verbatim>\<open>dimdec=2\<close>, \<^verbatim>\<open>dimdsep=','\<close> and the
  defaults for the other parameters is \<^verbatim>\<open>"3,14"\<close>; with the template
  \<^verbatim>\<open>dimpost="<>mm"\<close> it is \<^verbatim>\<open>"3,14mm"\<close>. The same holds for the double that Python
  reads the literal 3.14159 as.
\<close>

theorem format_text_example:
  "format_text rd 3.14159 None (Some 2) 0 '','' ''<>'' False = Inr ''3,14''
   \<and> format_text rd 3.14159 None (Some 2) 0 '','' ''<>mm'' False = Inr ''3,14mm''
   \<and> format_text rd (3537115888337719 / 1125899906842624) None (Some 2) 0 '','' ''<>'' False
       = Inr ''3,14''
   \<and> format_text rd (3537115888337719 / 1125899906842624) None (Some 2) 0 '','' ''<>mm'' False
       = Inr ''3,14mm''"
  unfolding format_text_def
  by (simp add: format_f_two_decimals format_f_two_decimals_double suppress_zeros_def
      replace_char_def)

text \<open>
  Claim C4. The display text resolved from the text attribute of the entity is empty
  when the attribute is the single space, whatever the style says; it is the formatted
  measurement when the attribute is empty or the placeholder \<^verbatim>\<open><>\<close>; and it is the
  attribute itself in every other case.
\<close>

theorem text_override_cases:
  fixes self :: "'a DimensionBase_scheme"
  shows "(dxf_text (dimension self) = '' '' \<longrightarrow> text_override env self m = Inr '''')
     \<and> (dxf_text (dimension self) = '''' \<or> dxf_text (dimension self) = ''<>''
          \<longrightarrow> text_override env self m = DimensionBase_format_text env self m)
     \<and> (dxf_text (dimension self) \<noteq> '' '' \<and> dxf_text (dimension self) \<noteq> ''''
          \<and> dxf_text (dimension self) \<noteq> ''<>''
          \<longrightarrow> text_override env self m = Inr (dxf_text (dimension self)))"
  by (auto simp add: text_override_def Let_def)

theorem text_override_cases_witness:
  "text_override example_env
     (projr (DimensionBase_init example_env
               ((example_dimension example_style)\<lparr>dxf_text := '' ''\<rparr>) example_block None None))
     10 = Inr ''''
   \<and> text_override example_env
     (projr (DimensionBase_init example_env
               ((example_dimension example_style)\<lparr>dxf_text := ''<>''\<rparr>) example_block None None))
     10 = Inr ''10''
   \<and> text_override example_env
     (projr (DimensionBase_init example_env
               ((example_dimension example_style)\<lparr>dxf_text := ''R 10''\<rparr>) example_block None None))
     10 = Inr ''R 10''"
  using text_override_cases
    [of "projr (DimensionBase_init example_env
                  ((example_dimension example_style)\<lparr>dxf_text := '' ''\<rparr>) example_block None None)"
        example_env 10]
    text_override_cases
    [of "projr (DimensionBase_init example_env
                  ((example_dimension example_style)\<lparr>dxf_text := ''<>''\<rparr>) example_block None None)"
        example_env 10]
    text_override_cases
    [of "projr (DimensionBase_init example_env
                  ((example_dimension example_style)\<lparr>dxf_text := ''R 10''\<rparr>) example_block None None)"
        example_env 10]
  by (simp add: example_defs eval_defs format_text_ten)

section \<open>What the constructors establish\<close>

lemma DimensionBase_init_Inr:
  assumes "DimensionBase_init env d blk u ov = Inr base"
  shows "dim_style base = (case ov of Some s \<Rightarrow> s | None \<Rightarrow> dimstyle_override d)"
    and "ucs base = (case u of Some x \<Rightarrow> x | None \<Rightarrow> PassTroughUCS)"
    and "block base = blk"
    and "user_location_override base = user_location_override_flag d"
    and "dxf_text (dimension base) = dxf_text d"
    and "dxf_text_midpoint (dimension base) = dxf_text_midpoint d"
    and "dxf_defpoint (dimension base) = dxf_defpoint d"
    and "dxf_defpoint2 (dimension base) = dxf_defpoint2 d"
    and "dxf_defpoint3 (dimension base) = dxf_defpoint3 d"
    and "arrow_size base = dimasz (dim_style base)"
    and "text_gap base = get (dimgap (dim_style base)) 0.625"
    and "force_text_inside base = (get (dimtix (dim_style base)) 0 \<noteq> 0)"
    and "dim_measurement_factor base = get (dimlfac (dim_style base)) 1"
    and "ext_line_fixed base = (get (dimexfix (dim_style base)) 0 \<noteq> 0)"
    and "ext_line_length base = (get (dimexlen (dim_style base)) (get (dimexe (dim_style base)) 0) \<noteq> 0)"
    and "ext_line_extension base = get (dimexe (dim_style base)) 0"
    and "ext_line_offset base = get (dimexo (dim_style base)) 0"
    and "suppress_dim1_line base = (get (dimsd1 (dim_style base)) 0 \<noteq> 0)"
    and "suppress_dim2_line base = (get (dimsd2 (dim_style base)) 0 \<noteq> 0)"
  using assms unfolding DimensionBase_init_def Let_def
  by (auto split: option.splits if_splits)

lemma get_text_location_Inr:
  assumes "get_text_location self w outside = Inr (loc, self')"
  shows "\<exists>m. self' = self\<lparr>dimension := (dimension self)\<lparr>dxf_text_midpoint := m\<rparr>\<rparr>
           \<and> (user_location_override self \<longrightarrow> m = dxf_text_midpoint (dimension self))
           \<and> (\<not> user_location_override self \<longrightarrow> m \<noteq> None)"
  using assms unfolding get_text_location_def Let_def
  by (auto simp add: bind_eq_Inr split: if_splits option.splits)

lemma init_text_stage:
  fixes S :: LinearDimension
  assumes "(if txt \<noteq> '''' then
                       (let w = text_width S txt;
                            req = w + 2 * (arrow_size S + text_gap S);
                            outside = (if \<not> force_text_inside S then req > meas else False);
                            self = S\<lparr>dim_text_width := Some w,
                                        required_text_space := Some req,
                                        text_outside := outside\<rparr>
                        in bind (get_text_location self w outside)
                             (\<lambda>(loc, self).
                                Inr (self\<lparr>text_location := Some loc,
                                          text_box := Some (TextBox_init loc w (text_height self) rot
                                                              (text_gap self * 0.99))\<rparr>)))
                     else Inr S) = Inr self"
  shows "\<exists>m tl tb rs dw. self = S\<lparr>dim_text_width := dw, required_text_space := rs,
              text_outside := (if txt \<noteq> '''' then \<not> force_text_inside S \<and>
                 text_width S txt + 2 * (arrow_size S + text_gap S) > meas else text_outside S),
              dimension := (dimension S)\<lparr>dxf_text_midpoint := m\<rparr>,
              text_location := tl, text_box := tb\<rparr>
      \<and> (user_location_override S \<or> txt = '''' \<longrightarrow> m = dxf_text_midpoint (dimension S))
      \<and> (\<not> user_location_override S \<and> txt \<noteq> '''' \<longrightarrow> m \<noteq> None)
      \<and> (txt = '''' \<longrightarrow> tl = text_location S \<and> tb = text_box S)
      \<and> (txt \<noteq> '''' \<longrightarrow> (\<exists>loc. tl = Some loc
             \<and> tb = Some (TextBox_init loc (text_width S txt) (text_height S) rot (text_gap S * 0.99))))"
proof (cases "txt = ''''")
  case True
  with assms have "self = S" by simp
  then show ?thesis using True
    by (intro exI[of _ "dxf_text_midpoint (dimension S)"] exI[of _ "text_location S"] exI[of _ "text_box S"]
         exI[of _ "required_text_space S"] exI[of _ "dim_text_width S"]) simp
next
  case False
  note a = assms[unfolded if_P[OF False] Let_def bind_eq_Inr]
  then obtain p where
    g0: "get_text_location (S\<lparr>dim_text_width := Some (text_width S txt),
           required_text_space := Some (text_width S txt + 2 * (arrow_size S + text_gap S)),
           text_outside := (if \<not> force_text_inside S then text_width S txt + 2 * (arrow_size S + text_gap S) > meas else False)\<rparr>)
          (text_width S txt)
          (if \<not> force_text_inside S then text_width S txt + 2 * (arrow_size S + text_gap S) > meas else False) = Inr p"
    and s0: "(case p of (loc, self) \<Rightarrow> Inr (self\<lparr>text_location := Some loc,
               text_box := Some (TextBox_init loc (text_width S txt) (text_height self) rot (text_gap self * 0.99))\<rparr>))
             = (Inr self :: pyerr + LinearDimension)"
    by iprover
  obtain loc s' where p: "p = (loc, s')" by (cases p)
  note g = g0[unfolded p]
  from s0 have s: "self = s'\<lparr>text_location := Some loc,
               text_box := Some (TextBox_init loc (text_width S txt) (text_height s') rot (text_gap s' * 0.99))\<rparr>"
    unfolding p by (simp only: prod.case sum.inject)
  from get_text_location_Inr[OF g] obtain m where
    m: "s' = S\<lparr>dim_text_width := Some (text_width S txt),
           required_text_space := Some (text_width S txt + 2 * (arrow_size S + text_gap S)),
           text_outside := (if \<not> force_text_inside S then text_width S txt + 2 * (arrow_size S + text_gap S) > meas else False),
           dimension := (dimension S)\<lparr>dxf_text_midpoint := m\<rparr>\<rparr>"
     and m1: "user_location_override S \<longrightarrow> m = dxf_text_midpoint (dimension S)"
     and m2: "\<not> user_location_override S \<longrightarrow> m \<noteq> None"
    by auto
  show ?thesis using False m1 m2 unfolding s m
    by (intro exI[of _ m] exI[of _ "Some loc"]
         exI[of _ "Some (TextBox_init loc (text_width S txt) (text_height S) rot (text_gap S * 0.99))"]
         exI[of _ "Some (text_width S txt + 2 * (arrow_size S + text_gap S))"] exI[of _ "Some (text_width S txt)"])
       simp
qed


lemma text_override_update:
  fixes b :: "'a DimensionBase_scheme"
  shows "text_override env (b\<lparr>dimension := (dimension b)\<lparr>dxf_defpoint := p\<rparr>, text_rotation := r\<rparr>) v
         = text_override env b v"
  unfolding text_override_def DimensionBase_format_text_def by (simp add: Let_def)

lemma LinearDimension_init_Inr:
  assumes "LinearDimension_init env d blk u ov = Inr self"
  shows "\<exists>base m. DimensionBase_init env d blk u ov = Inr base
      \<and> dimension self = (dimension base)\<lparr>dxf_defpoint := dim_line_start self, dxf_text_midpoint := m\<rparr>
      \<and> (user_location_override base \<or> self_text self = '''' \<longrightarrow> m = dxf_text_midpoint (dimension base))
      \<and> (\<not> user_location_override base \<and> self_text self \<noteq> '''' \<longrightarrow> m \<noteq> None)
      \<and> measurement self = magnitude (vsub (dim_line_end self) (dim_line_start self))
      \<and> text_override env base (measurement self * dim_measurement_factor base) = Inr (self_text self)
      \<and> required_arrows_space self = 2 * arrow_size base + text_gap base
      \<and> arrows_outside self = (required_arrows_space self > measurement self)
      \<and> text_outside self = (self_text self \<noteq> '''' \<and> \<not> force_text_inside base \<and>
            text_width base (self_text self) + 2 * (arrow_size base + text_gap base) > measurement self)
      \<and> ext1_line_start self = dxf_defpoint2 (dimension base)
      \<and> ext2_line_start self = dxf_defpoint3 (dimension base)
      \<and> dim_style self = dim_style base \<and> ucs self = ucs base \<and> block self = block base
      \<and> user_location_override self = user_location_override base
      \<and> arrow_size self = arrow_size base \<and> text_gap self = text_gap base
      \<and> force_text_inside self = force_text_inside base
      \<and> dim_measurement_factor self = dim_measurement_factor base
      \<and> text_height self = text_height base \<and> text_width_factor self = text_width_factor base
      \<and> ext_line_fixed self = ext_line_fixed base \<and> ext_line_length self = ext_line_length base
      \<and> ext_line_extension self = ext_line_extension base \<and> ext_line_offset self = ext_line_offset base
      \<and> suppress_dim1_line self = suppress_dim1_line base
      \<and> suppress_dim2_line self = suppress_dim2_line base"
  using assms unfolding LinearDimension_init_def Let_def bind_eq_Inr
  apply (elim exE conjE)
  apply (drule init_text_stage[unfolded Let_def])
  apply (elim exE conjE)
  subgoal for base ray dls dle tx m tloc tbox rs dw
    apply (rule exI[of _ base], rule exI[of _ m])
    apply (simp add: DimensionBase.defs LinearDimension.defs text_width_def text_override_update)
    done
  done

section \<open>The example renderer\<close>

lemma format_f_twenty: "format_f 6 20 = ''20.000000''"
  unfolding format_f_def Let_def
  by (simp add: round_half_even_def Let_def zfill_def digit_char_def replicate_five)

lemma format_text_twenty: "format_text rd 20 None None 0 ''.'' ''<>'' False = Inr ''20''"
  unfolding format_text_def
  by (simp add: format_f_twenty suppress_zeros_def replace_char_def)

lemma bind_weak_cong: "m = m' \<Longrightarrow> bind m f = bind m' f"
  by simp

lemma map_sum_Inr_D: "map_sum id f r = Inr y \<Longrightarrow> r = Inr (projr r) \<and> f (projr r) = y"
  by (cases r) simp_all

lemma example_summary:
  "map_sum id (\<lambda>s. (measurement s, self_text s, dim_line_start s, dim_line_end s, arrow_size s,
                     text_gap s, text_height s, text_width_factor s, force_text_inside s,
                     text_outside s, arrows_outside s, dim_measurement_factor s))
     (LinearDimension_init example_env (example_dimension example_style) example_block None None)
   = Inr (10, ''10'', Vector 0 5 0, Vector 10 5 0, 0.18, 0.625, 1, 1, False, False, False, 1)"
  by (simp add: example_defs eval_defs format_text_ten cong: bind_weak_cong let_weak_cong)

lemma example_init:
  "LinearDimension_init example_env (example_dimension example_style) example_block None None
   = Inr (example_renderer example_style)"
  using map_sum_Inr_D[OF example_summary] by (simp add: example_renderer_def)

lemma example_renderer_values:
  "measurement (example_renderer example_style) = 10"
  "self_text (example_renderer example_style) = ''10''"
  "dim_line_start (example_renderer example_style) = Vector 0 5 0"
  "dim_line_end (example_renderer example_style) = Vector 10 5 0"
  "arrow_size (example_renderer example_style) = 0.18"
  "text_gap (example_renderer example_style) = 0.625"
  "text_height (example_renderer example_style) = 1"
  "text_width_factor (example_renderer example_style) = 1"
  "force_text_inside (example_renderer example_style) = False"
  "text_outside (example_renderer example_style) = False"
  "arrows_outside (example_renderer example_style) = False"
  "dim_measurement_factor (example_renderer example_style) = 1"
  using map_sum_Inr_D[OF example_summary] by (simp_all add: example_renderer_def)

section \<open>Measurement\<close>

lemma magnitude_nonneg: "0 \<le> magnitude v"
  by (simp add: magnitude_def)

text \<open>
  Claim C1, as amended. For every linear dimension that \<^verbatim>\<open>LinearDimension.__init__\<close>
  accepts, the attribute \<^verbatim>\<open>measurement\<close> is not negative and is the Euclidean distance
  between \<^verbatim>\<open>dim_line_start\<close> and \<^verbatim>\<open>dim_line_end\<close>. The factor \<^verbatim>\<open>dimlfac\<close> (default 1)
  is not part of it: it scales only the value handed to \<^verbatim>\<open>text_override\<close>, whose result
  is the text. In the scenario of the spec, with the default factor, the measurement is
  10 between (0, 0, 0) and (10, 0, 0).
\<close>

theorem measurement_is_distance:
  assumes "LinearDimension_init env d blk u ov = Inr self"
  shows "0 \<le> measurement self
     \<and> measurement self = magnitude (vsub (dim_line_end self) (dim_line_start self))
     \<and> dim_measurement_factor self = get (dimlfac (dim_style self)) 1
     \<and> text_override env self (measurement self * dim_measurement_factor self) = Inr (self_text self)
     \<and> map_sum id (\<lambda>s. (measurement s, dim_line_start s, dim_line_end s))
          (LinearDimension_init example_env (scenario_dimension example_style) example_block None None)
        = Inr (10, Vector 0 0 0, Vector 10 0 0)"
proof -
  from LinearDimension_init_Inr[OF assms] obtain base m where
    b: "DimensionBase_init env d blk u ov = Inr base"
    and dm: "dimension self = (dimension base)\<lparr>dxf_defpoint := dim_line_start self, dxf_text_midpoint := m\<rparr>"
    and me: "measurement self = magnitude (vsub (dim_line_end self) (dim_line_start self))"
    and tx: "text_override env base (measurement self * dim_measurement_factor base) = Inr (self_text self)"
    and ds: "dim_style self = dim_style base"
    and mf: "dim_measurement_factor self = dim_measurement_factor base"
    by blast
  have 1: "0 \<le> measurement self" unfolding me by (rule magnitude_nonneg)
  have 3: "dim_measurement_factor self = get (dimlfac (dim_style self)) 1"
    using DimensionBase_init_Inr(13)[OF b] ds mf by simp
  have 4: "text_override env self (measurement self * dim_measurement_factor self) = Inr (self_text self)"
    using tx unfolding text_override_def DimensionBase_format_text_def mf ds dm by (simp add: Let_def)
  have 5: "map_sum id (\<lambda>s. (measurement s, dim_line_start s, dim_line_end s))
          (LinearDimension_init example_env (scenario_dimension example_style) example_block None None)
        = Inr (10, Vector 0 0 0, Vector 10 0 0)"
    by (simp add: scenario_dimension_def example_defs eval_defs format_text_ten
        cong: bind_weak_cong let_weak_cong)
  from 1 me 3 4 5 show ?thesis by blast
qed

text \<open>The example entity satisfies the hypothesis: its measurement is 10, its text
  \<^verbatim>\<open>10\<close>.\<close>

theorem measurement_is_distance_witness:
  "0 \<le> measurement (example_renderer example_style)
   \<and> measurement (example_renderer example_style)
       = magnitude (vsub (dim_line_end (example_renderer example_style))
                         (dim_line_start (example_renderer example_style)))
   \<and> measurement (example_renderer example_style) = 10
   \<and> text_override example_env (example_renderer example_style)
        (measurement (example_renderer example_style)
           * dim_measurement_factor (example_renderer example_style))
       = Inr ''10''"
  using measurement_is_distance[OF example_init]
  by (simp add: example_renderer_values magnitude_def vsub_def)

text \<open>
  Claim C1 as stated fails with \<^verbatim>\<open>dimlfac = 2\<close> in the scenario of the spec: the
  measurement is 10, the distance times the factor is 20 (and the text is \<^verbatim>\<open>20\<close>).
\<close>

theorem measurement_times_factor_counterexample:
  "map_sum id (\<lambda>s. (measurement s,
                     magnitude (vsub (dim_line_end s) (dim_line_start s)) * dim_measurement_factor s,
                     self_text s))
     (LinearDimension_init example_env (scenario_dimension (example_style\<lparr>dimlfac := Some 2\<rparr>))
        example_block None None)
   = Inr (10, 20, ''20'')"
  by (simp add: scenario_dimension_def example_defs eval_defs format_text_twenty
      cong: bind_weak_cong let_weak_cong)

section \<open>Placement\<close>

text \<open>
  The two flags that \<^verbatim>\<open>LinearDimension.__init__\<close> computes. For a text that is not
  empty \<^verbatim>\<open>text_outside\<close> is set exactly when the text width plus twice the sum of arrow
  size and text gap exceeds the measurement and \<^verbatim>\<open>dimtix\<close> is not set; \<^verbatim>\<open>arrows_outside\<close>
  is set exactly when twice the arrow size plus the text gap exceeds the measurement,
  whatever the text. This is about the flags only: what the renderer does with them is
  a matter of \<^verbatim>\<open>get_text_location\<close> and \<^verbatim>\<open>add_arrows\<close>.
\<close>

lemma placement_flags:
  assumes "LinearDimension_init env d blk u ov = Inr self"
  shows "(self_text self \<noteq> '''' \<longrightarrow>
            (text_outside self \<longleftrightarrow>
               text_width self (self_text self) + 2 * (arrow_size self + text_gap self) > measurement self
               \<and> \<not> force_text_inside self))
     \<and> (arrows_outside self \<longleftrightarrow> 2 * arrow_size self + text_gap self > measurement self)
     \<and> force_text_inside self = (get (dimtix (dim_style self)) 0 \<noteq> 0)
     \<and> arrow_size self = dimasz (dim_style self)
     \<and> text_gap self = get (dimgap (dim_style self)) 0.625"
proof -
  from LinearDimension_init_Inr[OF assms] obtain base where
    b: "DimensionBase_init env d blk u ov = Inr base"
    and ra: "required_arrows_space self = 2 * arrow_size base + text_gap base"
    and ao: "arrows_outside self = (required_arrows_space self > measurement self)"
    and to: "text_outside self = (self_text self \<noteq> '''' \<and> \<not> force_text_inside base \<and>
            text_width base (self_text self) + 2 * (arrow_size base + text_gap base) > measurement self)"
    and eqs: "dim_style self = dim_style base" "arrow_size self = arrow_size base"
      "text_gap self = text_gap base" "force_text_inside self = force_text_inside base"
      "text_height self = text_height base" "text_width_factor self = text_width_factor base"
    by blast
  have tw: "text_width self (self_text self) = text_width base (self_text self)"
    by (simp add: text_width_def eqs)
  show ?thesis
    using DimensionBase_init_Inr(10,11,12)[OF b]
    by (auto simp add: to ao ra tw eqs)
qed

text \<open>The example entity: a text that is not empty, both flags unset.\<close>

lemma placement_flags_example:
  "self_text (example_renderer example_style) \<noteq> ''''
   \<and> (text_outside (example_renderer example_style) \<longleftrightarrow>
        text_width (example_renderer example_style) (self_text (example_renderer example_style))
          + 2 * (arrow_size (example_renderer example_style) + text_gap (example_renderer example_style))
        > measurement (example_renderer example_style)
        \<and> \<not> force_text_inside (example_renderer example_style))
   \<and> \<not> text_outside (example_renderer example_style)
   \<and> \<not> arrows_outside (example_renderer example_style)"
  using placement_flags[OF example_init]
  by (simp add: example_renderer_values)

section \<open>Extension lines\<close>

text \<open>
  Claim C8 at a failing input. With \<^verbatim>\<open>dimexfix = 1\<close> and \<^verbatim>\<open>dimexlen = 2.5\<close> the extension
  line from (0, 0) to the dimension line at (0, 5) starts at (0, 4): one unit back from
  the dimension line, not 2.5. \<^verbatim>\<open>DimensionBase.__init__\<close> stores \<^verbatim>\<open>bool(dimexlen)\<close> in
  \<^verbatim>\<open>ext_line_length\<close>, and \<^verbatim>\<open>extension_line_points\<close> multiplies the direction by that
  truth value.
\<close>

theorem fixed_length_ignores_dimexlen:
  "bind (LinearDimension_init example_env
           (example_dimension (example_style\<lparr>dimexfix := Some 1, dimexlen := Some 2.5\<rparr>))
           example_block None None)
     (\<lambda>self. extension_line_points self (ext1_line_start self) (dim_line_start self))
   = Inr (Vector 0 4 0, Vector 0 5 0)"
  by (simp add: example_defs eval_defs format_text_ten extension_line_points_def float_of_bool_def
      cong: bind_weak_cong let_weak_cong)

section \<open>Dispatch\<close>

lemma dispatch_linear:
  assumes "dim_type d = 0 \<or> dim_type d = 1"
  shows "dispatch env n d u ov =
         linear env (d\<lparr>ent_drawing := (ent_drawing d)\<lparr>blocks := (blocks (ent_drawing d))(n := True)\<rparr>,
                       dxf_geometry := n\<rparr>)
           \<lparr>block_name = n, entities = []\<rparr> u ov"
  using assms by (auto simp add: dispatch_def Let_def)

lemma dispatch_unknown:
  assumes "dim_type d < 0 \<or> 6 < dim_type d"
  shows "dispatch env n d u ov = Inl (DXFValueError (''Unknown DIMENSION type: '' @ str_int (dim_type d)))"
  using assms by (auto simp add: dispatch_def Let_def)

text \<open>
  Claim C2 at the failing inputs. For each of the type codes 2 to 6 \<^verbatim>\<open>dispatch\<close> ends in
  the \<open>TypeError\<close> of \<^verbatim>\<open>raise NotImplemented\<close>, not in an error that says "not
  implemented". The codes 0 and 1 go to the linear renderer (\<open>dispatch_linear\<close>) and
  a code outside 0 to 6 is a \<open>DXFValueError\<close> (\<open>dispatch_unknown\<close>).
\<close>

theorem dispatch_unimplemented_types:
  "dispatch env n (d\<lparr>dim_type := 2\<rparr>) u ov = Inl (TypeError ''exceptions must derive from BaseException'')
   \<and> dispatch env n (d\<lparr>dim_type := 3\<rparr>) u ov = Inl (TypeError ''exceptions must derive from BaseException'')
   \<and> dispatch env n (d\<lparr>dim_type := 4\<rparr>) u ov = Inl (TypeError ''exceptions must derive from BaseException'')
   \<and> dispatch env n (d\<lparr>dim_type := 5\<rparr>) u ov = Inl (TypeError ''exceptions must derive from BaseException'')
   \<and> dispatch env n (d\<lparr>dim_type := 6\<rparr>) u ov = Inl (TypeError ''exceptions must derive from BaseException'')"
  by (simp add: dispatch_def angular_def diameter_def radius_def angular3p_def ordinate_def
      raise_NotImplemented_def Let_def)

section \<open>Unique handles\<close>

lemma contains_handle_iff: "contains_handle self h \<longleftrightarrow> h \<in> fst ` set (database self)"
  by (simp add: contains_handle_def map_of_eq_None_iff)

lemma get_unique_handle_steps:
  assumes "handle_seq (handles self) (seq_position (handles self) + k) \<notin> fst ` set (database self)"
  shows "\<exists>h self'. get_unique_handle self = Some (h, self')
           \<and> h \<notin> fst ` set (database self)
           \<and> database self' = database self
           \<and> handle_seq (handles self') = handle_seq (handles self)
           \<and> seq_position (handles self) < seq_position (handles self')"
  using assms
proof (induction k arbitrary: self)
  case 0
  then show ?case
    by (subst get_unique_handle.simps)
       (simp add: HandleGenerator_next_def contains_handle_iff Let_def)
next
  case (Suc k)
  let ?self' = "self\<lparr>handles := snd (HandleGenerator_next (handles self))\<rparr>"
  show ?case
  proof (cases "handle_seq (handles self) (seq_position (handles self)) \<in> fst ` set (database self)")
    case False
    then show ?thesis
      by (subst get_unique_handle.simps)
         (simp add: HandleGenerator_next_def contains_handle_iff Let_def)
  next
    case True
    have "handle_seq (handles ?self') (seq_position (handles ?self') + k) \<notin> fst ` set (database ?self')"
      using Suc.prems by (simp add: HandleGenerator_next_def)
    from Suc.IH[OF this] obtain h s' where
      "get_unique_handle ?self' = Some (h, s')" "h \<notin> fst ` set (database ?self')"
      "database s' = database ?self'" "handle_seq (handles s') = handle_seq (handles ?self')"
      "seq_position (handles ?self') < seq_position (handles s')"
      by blast
    with True show ?thesis
      by (subst get_unique_handle.simps)
         (simp add: HandleGenerator_next_def contains_handle_iff Let_def)
  qed
qed

lemma free_handle_ahead:
  assumes "inj (handle_seq g)"
  shows "\<exists>k. handle_seq g (c + k) \<notin> fst ` set db"
proof (rule ccontr)
  assume "\<not> ?thesis"
  then have "(\<lambda>k. handle_seq g (c + k)) ` UNIV \<subseteq> fst ` set db" by auto
  then have "finite ((\<lambda>k. handle_seq g (c + k)) ` (UNIV :: nat set))"
    by (rule finite_subset) simp
  moreover have "inj (\<lambda>k. handle_seq g (c + k))"
    using assms by (auto intro!: injI dest!: injD)
  ultimately have "finite (UNIV :: nat set)"
    by (rule finite_imageD)
  then show False by simp
qed

lemma AList_update_other: "k \<noteq> h \<Longrightarrow> map_of (AList.update h v al) k = map_of al k"
  by (simp add: update_conv')

lemma get_unique_handle_Some:
  assumes "get_unique_handle self = Some r"
  shows "\<not> contains_handle self (fst r) \<and> database (snd r) = database self"
  using assms
proof (induction rule: get_unique_handle.raw_induct)
  case (1 f self r)
  let ?next = "self\<lparr>handles := snd (HandleGenerator_next (handles self))\<rparr>"
  let ?h = "fst (HandleGenerator_next (handles self))"
  have g: "get_unique_handle self = Some r" by fact
  have F: "(let handle = fst (HandleGenerator_next (handles self));
          self' = self\<lparr>handles := snd (HandleGenerator_next (handles self))\<rparr>
      in if \<not> contains_handle self' handle then Some (handle, self')
         else f self') = Some r" by fact
  have IH: "\<And>x y. f x = Some y \<Longrightarrow> get_unique_handle x = Some y
     \<Longrightarrow> \<not> contains_handle x (fst y) \<and> database (snd y) = database x" by fact
  show ?case
  proof (cases "contains_handle ?next ?h")
    case False
    with F have "r = (?h, ?next)" by (simp add: Let_def)
    with False show ?thesis by (simp add: contains_handle_def)
  next
    case True
    with F have a: "f ?next = Some r" by (simp add: Let_def)
    from True g have b: "get_unique_handle ?next = Some r"
      by (subst (asm) get_unique_handle.simps) (simp add: Let_def)
    from IH[OF a b] show ?thesis by (simp add: contains_handle_def)
  qed
qed (rule assms)

lemma unique_handle_total:
  assumes "inj (handle_seq (handles self))"
  shows "\<exists>h self'. get_unique_handle self = Some (h, self')
           \<and> \<not> contains_handle self h
           \<and> database self' = database self
           \<and> (\<forall>tags t ts. (\<forall>x \<in> set (noclass tags). fst x \<noteq> 5 \<and> fst x \<noteq> 105) \<and> noclass tags = t # ts
                 \<longrightarrow> (\<exists>tags'. add_tags self tags = Some (Inr (h, setitem self' h tags', tags'))
                        \<and> noclass tags' = t # ((if snd t = ''DIMSTYLE'' then 105 else 5, h) # ts)
                        \<and> map_of (database (setitem self' h tags')) h = Some tags'
                        \<and> (\<forall>k v. map_of (database self) k = Some v
                              \<longrightarrow> map_of (database (setitem self' h tags')) k = Some v)))"
proof -
  from free_handle_ahead[OF assms] obtain k where
    "handle_seq (handles self) (seq_position (handles self) + k) \<notin> fst ` set (database self)"
    by blast
  from get_unique_handle_steps[OF this] obtain h self' where
    g: "get_unique_handle self = Some (h, self')" and h: "h \<notin> fst ` set (database self)"
    and d: "database self' = database self"
    by blast
  have fresh: "map_of (database self) h = None"
    using h by (simp add: map_of_eq_None_iff)
  have inner: "\<exists>tags'. add_tags self tags = Some (Inr (h, setitem self' h tags', tags'))
                        \<and> noclass tags' = t # ((if snd t = ''DIMSTYLE'' then 105 else 5, h) # ts)
                        \<and> map_of (database (setitem self' h tags')) h = Some tags'
                        \<and> (\<forall>k v. map_of (database self) k = Some v
                              \<longrightarrow> map_of (database (setitem self' h tags')) k = Some v)"
    if nh: "\<forall>x \<in> set (noclass tags). fst x \<noteq> 5 \<and> fst x \<noteq> 105" and nc: "noclass tags = t # ts"
    for tags t ts
  proof -
    have f: "filter (\<lambda>t. fst t = 5 \<or> fst t = 105) (noclass tags) = []"
      using nh by (auto simp add: filter_empty_conv)
    have gh: "get_handle tags = Inl (DXFValueError ''No handle found.'')"
      by (simp add: get_handle_def f)
    let ?tags' = "tags\<lparr>noclass := take 1 (noclass tags) @ [(if snd t = ''DIMSTYLE'' then 105 else 5, h)]
                                                  @ drop 1 (noclass tags)\<rparr>"
    have a: "add_tags self tags = Some (Inr (h, setitem self' h ?tags', ?tags'))"
      by (simp add: add_tags_def gh g dxftype_def nc Let_def)
    have b: "noclass ?tags' = t # ((if snd t = ''DIMSTYLE'' then 105 else 5, h) # ts)"
      by (simp add: nc)
    have c: "map_of (database (setitem self' h ?tags')) h = Some ?tags'"
      by (simp add: setitem_def update_conv')
    have e: "map_of (database (setitem self' h ?tags')) k = Some v"
      if "map_of (database self) k = Some v" for k v
    proof -
      from that fresh have "k \<noteq> h" by auto
      then show ?thesis using that by (simp add: setitem_def d AList_update_other)
    qed
    from a b c e show ?thesis by blast
  qed
  from inner have all: "\<forall>tags t ts. (\<forall>x \<in> set (noclass tags). fst x \<noteq> 5 \<and> fst x \<noteq> 105) \<and> noclass tags = t # ts
                 \<longrightarrow> (\<exists>tags'. add_tags self tags = Some (Inr (h, setitem self' h tags', tags'))
                        \<and> noclass tags' = t # ((if snd t = ''DIMSTYLE'' then 105 else 5, h) # ts)
                        \<and> map_of (database (setitem self' h tags')) h = Some tags'
                        \<and> (\<forall>k v. map_of (database self) k = Some v
                              \<longrightarrow> map_of (database (setitem self' h tags')) k = Some v))"
    by blast
  have nc: "\<not> contains_handle self h"
    using fresh by (simp add: contains_handle_def)
  from g nc d all show ?thesis by blast
qed

text \<open>
  Claim C10. Whatever the state of the database, a handle that \<^verbatim>\<open>get_unique_handle\<close>
  returns is not a key of the database, and the database is left as it was. The loop
  returns when the handle generator never repeats a handle. Then \<^verbatim>\<open>add_tags\<close>, given a
  tag list that carries no handle, stores the tags with their new handle tag under that
  handle, and every entry the database held is still there.
\<close>

theorem unique_handle_is_fresh:
  "(\<forall>h self'. get_unique_handle self = Some (h, self')
       \<longrightarrow> \<not> contains_handle self h \<and> database self' = database self)
   \<and> (inj (handle_seq (handles self)) \<longrightarrow>
        (\<exists>h self'. get_unique_handle self = Some (h, self')
           \<and> \<not> contains_handle self h
           \<and> database self' = database self
           \<and> (\<forall>tags t ts. (\<forall>x \<in> set (noclass tags). fst x \<noteq> 5 \<and> fst x \<noteq> 105) \<and> noclass tags = t # ts
                 \<longrightarrow> (\<exists>tags'. add_tags self tags = Some (Inr (h, setitem self' h tags', tags'))
                        \<and> noclass tags' = t # ((if snd t = ''DIMSTYLE'' then 105 else 5, h) # ts)
                        \<and> map_of (database (setitem self' h tags')) h = Some tags'
                        \<and> (\<forall>k v. map_of (database self) k = Some v
                              \<longrightarrow> map_of (database (setitem self' h tags')) k = Some v)))))"
proof (intro conjI allI impI)
  fix h self'
  assume "get_unique_handle self = Some (h, self')"
  from get_unique_handle_Some[OF this]
  show "\<not> contains_handle self h" and "database self' = database self" by simp_all
next
  assume "inj (handle_seq (handles self))"
  then show "\<exists>h self'. get_unique_handle self = Some (h, self')
           \<and> \<not> contains_handle self h
           \<and> database self' = database self
           \<and> (\<forall>tags t ts. (\<forall>x \<in> set (noclass tags). fst x \<noteq> 5 \<and> fst x \<noteq> 105) \<and> noclass tags = t # ts
                 \<longrightarrow> (\<exists>tags'. add_tags self tags = Some (Inr (h, setitem self' h tags', tags'))
                        \<and> noclass tags' = t # ((if snd t = ''DIMSTYLE'' then 105 else 5, h) # ts)
                        \<and> map_of (database (setitem self' h tags')) h = Some tags'
                        \<and> (\<forall>k v. map_of (database self) k = Some v
                              \<longrightarrow> map_of (database (setitem self' h tags')) k = Some v)))"
    by (rule unique_handle_total)
qed

lemma less_16_cases:
  "(a::nat) < 16 \<Longrightarrow> a = 0 \<or> a = 1 \<or> a = 2 \<or> a = 3 \<or> a = 4 \<or> a = 5 \<or> a = 6 \<or> a = 7
     \<or> a = 8 \<or> a = 9 \<or> a = 10 \<or> a = 11 \<or> a = 12 \<or> a = 13 \<or> a = 14 \<or> a = 15"
  by presburger

lemma hex_digit_inj:
  assumes "a < 16" "b < 16" "hex_digit a = hex_digit b"
  shows "a = b"
  using less_16_cases[OF assms(1)] less_16_cases[OF assms(2)] assms(3)
  by (elim disjE) (simp_all add: hex_digit_def)

lemma hex_str_not_Nil: "hex_str n \<noteq> []"
  by (subst hex_str.simps) simp

lemma hex_str_last: "last (hex_str n) = hex_digit (n mod 16)"
  by (subst hex_str.simps) simp

lemma hex_str_butlast: "butlast (hex_str n) = (if n < 16 then [] else hex_str (n div 16))"
  by (subst hex_str.simps) simp

lemma hex_str_inj: "hex_str m = hex_str n \<Longrightarrow> m = n"
proof (induction m arbitrary: n rule: less_induct)
  case (less m)
  from less.prems have l: "hex_digit (m mod 16) = hex_digit (n mod 16)"
    by (metis hex_str_last)
  then have md: "m mod 16 = n mod 16"
    by (intro hex_digit_inj) simp_all
  from less.prems have bl: "(if m < 16 then [] else hex_str (m div 16))
      = (if n < 16 then [] else hex_str (n div 16))"
    by (metis hex_str_butlast)
  show ?case
  proof (cases "m < 16")
    case True
    with bl have "n < 16" by (auto simp add: hex_str_not_Nil split: if_splits)
    with True md show ?thesis by simp
  next
    case False
    with bl have n: "\<not> n < 16" and e: "hex_str (m div 16) = hex_str (n div 16)"
      using hex_str_not_Nil[of "m div 16"] by (auto split: if_splits)
    from False have "m div 16 < m" by simp
    from less.IH[OF this e] have "m div 16 = n div 16" .
    with md show ?thesis
      by (metis div_mult_mod_eq)
  qed
qed

lemma hex_generator_inj: "inj (handle_seq hex_generator)"
proof (rule injI)
  fix x y
  assume "handle_seq hex_generator x = handle_seq hex_generator y"
  then have "hex_str (Suc x) = hex_str (Suc y)"
    by (simp add: hex_generator_def del: hex_str.simps)
  from hex_str_inj[OF this] show "x = y" by simp
qed

lemma example_db_unique_handle:
  "get_unique_handle example_db
   = Some (''3'', example_db\<lparr>handles := hex_generator\<lparr>seq_position := 3\<rparr>\<rparr>)"
  apply (subst get_unique_handle.simps)
  apply (simp add: example_db_def hex_generator_def HandleGenerator_next_def contains_handle_def
      hex_digit_def Let_def)
  apply (subst get_unique_handle.simps)
  apply (simp add: example_db_def hex_generator_def HandleGenerator_next_def contains_handle_def
      hex_digit_def Let_def)
  apply (subst get_unique_handle.simps)
  apply (simp add: example_db_def hex_generator_def HandleGenerator_next_def contains_handle_def
      hex_digit_def Let_def)
  done

text \<open>The example database: the generator produces 1 and 2, which are taken, then 3.\<close>

theorem unique_handle_is_fresh_witness:
  "inj (handle_seq (handles example_db))
   \<and> get_unique_handle example_db
       = Some (''3'', example_db\<lparr>handles := hex_generator\<lparr>seq_position := 3\<rparr>\<rparr>)
   \<and> \<not> contains_handle example_db ''3''
   \<and> (\<exists>tags'. add_tags example_db \<lparr>noclass = [(0, ''DIMSTYLE''), (2, ''STANDARD'')]\<rparr>
                 = Some (Inr (''3'',
                      setitem (example_db\<lparr>handles := hex_generator\<lparr>seq_position := 3\<rparr>\<rparr>) ''3'' tags',
                      tags'))
        \<and> noclass tags' = [(0, ''DIMSTYLE''), (105, ''3''), (2, ''STANDARD'')]
        \<and> map_of (database (setitem (example_db\<lparr>handles := hex_generator\<lparr>seq_position := 3\<rparr>\<rparr>)
                                ''3'' tags')) ''1''
            = Some \<lparr>noclass = [(0, ''LINE''), (5, ''1'')]\<rparr>)"
proof -
  have i: "inj (handle_seq (handles example_db))"
    using hex_generator_inj by (simp add: example_db_def)
  from unique_handle_is_fresh[of example_db, THEN conjunct2, rule_format, OF i] obtain h self' where
    g: "get_unique_handle example_db = Some (h, self')"
    and n: "\<not> contains_handle example_db h"
    and a: "\<forall>tags t ts. (\<forall>x \<in> set (noclass tags). fst x \<noteq> 5 \<and> fst x \<noteq> 105) \<and> noclass tags = t # ts
                 \<longrightarrow> (\<exists>tags'. add_tags example_db tags = Some (Inr (h, setitem self' h tags', tags'))
                        \<and> noclass tags' = t # ((if snd t = ''DIMSTYLE'' then 105 else 5, h) # ts)
                        \<and> map_of (database (setitem self' h tags')) h = Some tags'
                        \<and> (\<forall>k v. map_of (database example_db) k = Some v
                              \<longrightarrow> map_of (database (setitem self' h tags')) k = Some v))"
    by blast
  from g have h: "h = ''3''" and s: "self' = example_db\<lparr>handles := hex_generator\<lparr>seq_position := 3\<rparr>\<rparr>"
    by (simp_all add: example_db_unique_handle)
  have one: "map_of (database example_db) ''1'' = Some \<lparr>noclass = [(0, ''LINE''), (5, ''1'')]\<rparr>"
    by (simp add: example_db_def)
  from a[rule_format, of "\<lparr>noclass = [(0, ''DIMSTYLE''), (2, ''STANDARD'')]\<rparr>" "(0, ''DIMSTYLE'')" "[(2, ''STANDARD'')]"]
  obtain tags' where
    "add_tags example_db \<lparr>noclass = [(0, ''DIMSTYLE''), (2, ''STANDARD'')]\<rparr>
       = Some (Inr (h, setitem self' h tags', tags'))"
    "noclass tags' = [(0, ''DIMSTYLE''), (105, h), (2, ''STANDARD'')]"
    "\<forall>k v. map_of (database example_db) k = Some v
                              \<longrightarrow> map_of (database (setitem self' h tags')) k = Some v"
    by auto
  with one i n example_db_unique_handle show ?thesis
    unfolding h s by blast
qed

section \<open>The dimension line\<close>

lemma add_line_entities:
  fixes self :: "'a LinearDimension_scheme"
  shows "entities (block (add_line self a b atts))
         = entities (block self) @ [Line (wcs self a) (wcs self b) (update_attribs (default_attributes self) atts)]"
  by (simp add: add_line_def append_entity_def Let_def)

lemma add_line_frame:
  fixes self :: "'a LinearDimension_scheme"
  shows "wcs (add_line self a b atts) = wcs self"
    and "default_attributes (add_line self a b atts) = default_attributes self"
    and "suppress_dim2_line (add_line self a b atts) = suppress_dim2_line self"
    and "dimension (add_line self a b atts) = dimension self"
    and "ucs (add_line self a b atts) = ucs self"
  by (simp_all add: add_line_def Let_def wcs_def default_attributes_def fun_eq_iff)

lemma order_nearer_first:
  assumes "order start a b = (p1, p2)"
  shows "{p1, p2} = {a, b} \<and> magnitude (vsub start p1) \<le> magnitude (vsub start p2)"
  using assms by (auto simp add: order_def split: if_splits)

text \<open>
  Claim C5, as amended. \<^verbatim>\<open>add_dimension_line\<close> tests the line between its (extended) end
  points against the text box. With exactly two intersection points it emits the segment
  from the start to the nearer point unless \<^verbatim>\<open>dimsd1\<close> suppresses it, and the segment
  from the farther point to the end unless \<^verbatim>\<open>dimsd2\<close> suppresses it. With any other
  number of points, or without a text box, it emits the one line from start to end.
\<close>

theorem dimension_line_segments:
  fixes self :: "'a LinearDimension_scheme"
  assumes "add_dimension_line env self start0 end0 = Inr self'"
  shows "\<exists>direction start end_p attribs ips.
      normalize (vsub end0 start0) 1 = Inr direction
    \<and> start = (if (case arrow1_name self of None \<Rightarrow> True | Some n \<Rightarrow> has_extension_line env n)
                then vsub start0 (vmul direction (float_of_bool (dim_line_extension self))) else start0)
    \<and> end_p = (if (case arrow2_name self of None \<Rightarrow> True | Some n \<Rightarrow> has_extension_line env n)
                then vadd end0 (vmul direction (float_of_bool (dim_line_extension self))) else end0)
    \<and> ips = (case text_box self of Some tb \<Rightarrow> intersect tb (ConstructionLine start end_p) | None \<Rightarrow> [])
    \<and> (if length ips = 2
        then (\<exists>p1 p2. {p1, p2} = {ips ! 0, ips ! 1}
                \<and> magnitude (vsub start p1) \<le> magnitude (vsub start p2)
                \<and> entities (block self') = entities (block self)
                     @ (if suppress_dim1_line self then [] else [Line (wcs self start) (wcs self p1) attribs])
                     @ (if suppress_dim2_line self then [] else [Line (wcs self p2) (wcs self end_p) attribs]))
        else entities (block self') = entities (block self) @ [Line (wcs self start) (wcs self end_p) attribs])"
proof -
  from assms obtain direction where
    n: "normalize (vsub end0 start0) 1 = Inr direction"
    unfolding add_dimension_line_def bind_eq_Inr by blast
  define start where "start = (if (case arrow1_name self of None \<Rightarrow> True | Some n \<Rightarrow> has_extension_line env n)
                then vsub start0 (vmul direction (float_of_bool (dim_line_extension self))) else start0)"
  define end_p where "end_p = (if (case arrow2_name self of None \<Rightarrow> True | Some n \<Rightarrow> has_extension_line env n)
                then vadd end0 (vmul direction (float_of_bool (dim_line_extension self))) else end0)"
  define ips where "ips = (case text_box self of Some tb \<Rightarrow> intersect tb (ConstructionLine start end_p) | None \<Rightarrow> [])"
  define at0 where "at0 = (let attribs = [(''color'', AInt (dim_line_color self))];
              attribs = (case dim_linetype self of
                           None \<Rightarrow> attribs
                         | Some lt \<Rightarrow> AList.update ''linetype'' (AStr lt) attribs)
           in (if supports_dxf_r2000 self
                         then AList.update ''lineweight'' (AInt (dim_lineweight self)) attribs
                         else attribs))"
  define attribs where "attribs = update_attribs (default_attributes self) at0"
  have r: "(if length ips = 2 then
               (let (p1, p2) = order start (ips ! 0) (ips ! 1);
                    s = (if \<not> suppress_dim1_line self then add_line self start p1 at0 else self);
                    s = (if \<not> suppress_dim2_line s then add_line s p2 end_p at0 else s)
                in Inr s)
             else Inr (add_line self start end_p at0)) = (Inr self' :: pyerr + 'a LinearDimension_scheme)"
    using assms
    unfolding add_dimension_line_def n bind_Inr start_def end_p_def ips_def at0_def Let_def .
  have body: "(if length ips = 2
        then (\<exists>p1 p2. {p1, p2} = {ips ! 0, ips ! 1}
                \<and> magnitude (vsub start p1) \<le> magnitude (vsub start p2)
                \<and> entities (block self') = entities (block self)
                     @ (if suppress_dim1_line self then [] else [Line (wcs self start) (wcs self p1) attribs])
                     @ (if suppress_dim2_line self then [] else [Line (wcs self p2) (wcs self end_p) attribs]))
        else entities (block self') = entities (block self) @ [Line (wcs self start) (wcs self end_p) attribs])"
  proof (cases "length ips = 2")
    case False
    with r have "self' = add_line self start end_p at0" by simp
    with False show ?thesis by (simp add: add_line_entities attribs_def)
  next
    case True
    obtain p1 p2 where o: "order start (ips ! 0) (ips ! 1) = (p1, p2)"
      by (cases "order start (ips ! 0) (ips ! 1)")
    note on = order_nearer_first[OF o]
    from r True o have s: "self' = (let s = (if \<not> suppress_dim1_line self then add_line self start p1 at0 else self)
         in (if \<not> suppress_dim2_line s then add_line s p2 end_p at0 else s))"
      by (simp add: Let_def)
    have "entities (block self') = entities (block self)
                     @ (if suppress_dim1_line self then [] else [Line (wcs self start) (wcs self p1) attribs])
                     @ (if suppress_dim2_line self then [] else [Line (wcs self p2) (wcs self end_p) attribs])"
      unfolding s attribs_def
      by (simp add: Let_def add_line_entities add_line_frame)
    with on True show ?thesis by auto
  qed
  from n start_def end_p_def ips_def body show ?thesis by blast
qed

lemmas render_defs = render_def add_measurement_text_def add_text_def add_leader_def add_line_def
  extension_line_points_def add_extension_line_def add_arrows_def add_blockref_def
  has_arrow_extension_def add_dimension_line_def add_defpoints_def defpoints_to_wcs_def
  intersect_def border_lines_def line_intersect_def order_def update_attribs_def
  default_attributes_def wcs_def ocs_def append_entity_def float_of_bool_def vector_key_def
  linear_def

lemma example_dimension_line_summary:
  "map_sum id (\<lambda>s. entities (block s))
     (add_dimension_line example_env (example_renderer example_style)
        (dim_line_start (example_renderer example_style)) (dim_line_end (example_renderer example_style)))
   = Inr [Line (Vector 0 5 0) (Vector 3.38125 5 0)
            [(''layer'', AStr ''0''), (''color'', AInt 256), (''lineweight'', AInt (- 2))],
          Line (Vector 6.61875 5 0) (Vector 10 5 0)
            [(''layer'', AStr ''0''), (''color'', AInt 256), (''lineweight'', AInt (- 2))]]"
proof -
  have "map_sum id (\<lambda>s. entities (block s))
     (bind (LinearDimension_init example_env (example_dimension example_style) example_block None None)
        (\<lambda>self. add_dimension_line example_env self (dim_line_start self) (dim_line_end self)))
   = Inr [Line (Vector 0 5 0) (Vector 3.38125 5 0)
            [(''layer'', AStr ''0''), (''color'', AInt 256), (''lineweight'', AInt (- 2))],
          Line (Vector 6.61875 5 0) (Vector 10 5 0)
            [(''layer'', AStr ''0''), (''color'', AInt 256), (''lineweight'', AInt (- 2))]]"
    by (simp add: example_defs eval_defs format_text_ten render_defs
        cong: bind_weak_cong let_weak_cong)
  then show ?thesis by (simp only: example_init bind_Inr)
qed

lemma example_dimension_line_run:
  "add_dimension_line example_env (example_renderer example_style)
     (dim_line_start (example_renderer example_style)) (dim_line_end (example_renderer example_style))
   = Inr (example_dimension_line example_style)"
  using map_sum_Inr_D[OF example_dimension_line_summary]
  by (simp add: example_dimension_line_def)

text \<open>The example: the text box is crossed in two points and no part is suppressed, so
  two segments are emitted, the nearer one first.\<close>

theorem dimension_line_segments_witness:
  "add_dimension_line example_env (example_renderer example_style)
     (dim_line_start (example_renderer example_style)) (dim_line_end (example_renderer example_style))
   = Inr (example_dimension_line example_style)
   \<and> entities (block (example_dimension_line example_style))
      = [Line (Vector 0 5 0) (Vector 3.38125 5 0)
            [(''layer'', AStr ''0''), (''color'', AInt 256), (''lineweight'', AInt (- 2))],
         Line (Vector 6.61875 5 0) (Vector 10 5 0)
            [(''layer'', AStr ''0''), (''color'', AInt 256), (''lineweight'', AInt (- 2))]]
   \<and> (\<exists>direction start end_p attribs ips.
      normalize (vsub (dim_line_end (example_renderer example_style))
                      (dim_line_start (example_renderer example_style))) 1 = Inr direction
    \<and> start = (if (case arrow1_name (example_renderer example_style) of
                      None \<Rightarrow> True | Some n \<Rightarrow> has_extension_line example_env n)
                then vsub (dim_line_start (example_renderer example_style))
                       (vmul direction (float_of_bool (dim_line_extension (example_renderer example_style))))
                else dim_line_start (example_renderer example_style))
    \<and> end_p = (if (case arrow2_name (example_renderer example_style) of
                      None \<Rightarrow> True | Some n \<Rightarrow> has_extension_line example_env n)
                then vadd (dim_line_end (example_renderer example_style))
                       (vmul direction (float_of_bool (dim_line_extension (example_renderer example_style))))
                else dim_line_end (example_renderer example_style))
    \<and> ips = (case text_box (example_renderer example_style) of
                Some tb \<Rightarrow> intersect tb (ConstructionLine start end_p) | None \<Rightarrow> [])
    \<and> (if length ips = 2
        then (\<exists>p1 p2. {p1, p2} = {ips ! 0, ips ! 1}
                \<and> magnitude (vsub start p1) \<le> magnitude (vsub start p2)
                \<and> entities (block (example_dimension_line example_style))
                   = entities (block (example_renderer example_style))
                     @ (if suppress_dim1_line (example_renderer example_style) then []
                        else [Line (wcs (example_renderer example_style) start)
                                (wcs (example_renderer example_style) p1) attribs])
                     @ (if suppress_dim2_line (example_renderer example_style) then []
                        else [Line (wcs (example_renderer example_style) p2)
                                (wcs (example_renderer example_style) end_p) attribs]))
        else entities (block (example_dimension_line example_style))
             = entities (block (example_renderer example_style))
               @ [Line (wcs (example_renderer example_style) start)
                    (wcs (example_renderer example_style) end_p) attribs]))"
  using dimension_line_segments[OF example_dimension_line_run]
    example_dimension_line_run map_sum_Inr_D[OF example_dimension_line_summary]
  by (simp add: example_dimension_line_def)

text \<open>
  Claim C5 as stated fails when a part of the dimension line is suppressed. With
  \<^verbatim>\<open>dimsd1 = 1\<close> the text box of the example is crossed in the two points (3.38125, 5)
  and (6.61875, 5), and one segment is emitted, from the farther point to the end.
\<close>

theorem suppressed_segment_counterexample:
  "bind (LinearDimension_init example_env (example_dimension (example_style\<lparr>dimsd1 := Some 1\<rparr>))
           example_block None None)
     (\<lambda>self. bind (add_dimension_line example_env self (dim_line_start self) (dim_line_end self))
        (\<lambda>self'. Inr (map_option (\<lambda>tb. intersect tb (ConstructionLine (dim_line_start self) (dim_line_end self)))
                          (text_box self),
                       entities (block self'))))
   = Inr (Some [Vector 3.38125 5 0, Vector 6.61875 5 0],
          [Line (Vector 6.61875 5 0) (Vector 10 5 0)
             [(''layer'', AStr ''0''), (''color'', AInt 256), (''lineweight'', AInt (- 2))]])"
  by (simp add: example_defs eval_defs format_text_ten render_defs
      cong: bind_weak_cong let_weak_cong)


section \<open>What rendering leaves alone\<close>














section \<open>Defining points after rendering\<close>







section \<open>Text outside of the extension lines\<close>

text \<open>
  \<^verbatim>\<open>get_text_location\<close> takes the decision as its parameter \<^verbatim>\<open>text_outside\<close>, which its
  docstring describes as placing the text outside of the extension lines, and never
  reads it:
  the body carries the note \<^verbatim>\<open># todo: text location outside\<close>. The location is the
  same for both values of the flag.
\<close>

lemma get_text_location_ignores_text_outside:
  "get_text_location self w True = get_text_location self w False"
  by (simp add: get_text_location_def)

lemma format_f_one: "format_f 6 1 = ''1.000000''"
  unfolding format_f_def Let_def
  by (simp add: round_half_even_def Let_def zfill_def digit_char_def replicate_five)

lemma format_text_one: "format_text rd 1 None None 0 ''.'' ''<>'' False = Inr ''1''"
  unfolding format_text_def
  by (simp add: format_f_one suppress_zeros_def replace_char_def)

text \<open>
  Claim C3 at a failing input. The claim says that the text of a linear dimension is
  placed outside the extension lines exactly when the text width plus twice the sum of
  arrow size and text gap exceeds the measurement and \<^verbatim>\<open>dimtix\<close> is not set. For the
  measurement points (0, 0) and (1, 0) with the dimension line through (0, 5), arrow size
  0.18, text gap 0.625 and text height 1, the text is \<^verbatim>\<open>1\<close>, the required space
  1 + 2 * (0.18 + 0.625) = 2.61 exceeds the measurement 1, \<^verbatim>\<open>dimtix\<close> is not set and
  \<^verbatim>\<open>text_outside\<close> is true. The text is located at (0.5, 5), and the rendered block has
  its MTEXT inserted there: midway between the extension lines, which run from (0, 0) to
  (0, 5) and from (1, 0) to (1, 5). The arrows need 2 * 0.18 + 0.625 = 0.985, which does
  not exceed the measurement, and point inside.
\<close>

theorem text_outside_not_placed:
  "map_sum id (\<lambda>s. (ext1_line_start s, ext2_line_start s, dim_line_start s, dim_line_end s,
                     measurement s, self_text s, required_text_space s, force_text_inside s,
                     text_outside s, arrows_outside s, text_location s,
                     map_option center (text_box s)))
     (LinearDimension_init example_env (narrow_dimension example_style) example_block None None)
   = Inr (Vector 0 0 0, Vector 1 0 0, Vector 0 5 0, Vector 1 5 0,
          1, ''1'', Some 2.61, False,
          True, False, Some (Vector 0.5 5 0),
          Some (Vector 0.5 5 0))
   \<and> map_sum id (\<lambda>r. (dxf_text_midpoint (fst r), entities (snd r)))
       (linear example_env (narrow_dimension example_style) example_block None None)
   = Inr (Some (Vector 0.5 5 0),
      [MText ''1''
        [(''layer'', AStr ''0''), (''color'', AInt 256),
         (''rotation'', AReal 0), (''style'', AStr ''STANDARD''),
         (''char_height'', AReal 1), (''insert'', AVec (Vector 0.5 5 0)),
         (''attachment_point'', AInt 5)],
       Line (Vector 0 0 0) (Vector 0 5 0)
        [(''layer'', AStr ''0''), (''color'', AInt 256), (''lineweight'', AInt (- 2))],
       Line (Vector 1 0 0) (Vector 1 5 0)
        [(''layer'', AStr ''0''), (''color'', AInt 256), (''lineweight'', AInt (- 2))],
       ArrowBlockRef ''OBLIQUE'' (Vector 0 5 0) 0.18 180 [(''color'', AInt 256)],
       ArrowBlockRef ''OBLIQUE'' (Vector 1 5 0) 0.18 0 [(''color'', AInt 256)],
       Line (Vector 0 5 0) (Vector 1 5 0)
        [(''layer'', AStr ''0''), (''color'', AInt 256), (''lineweight'', AInt (- 2))],
       Point (Vector 0 5 0) [(''layer'', AStr ''DEFPOINTS'')],
       Point (Vector 0 0 0) [(''layer'', AStr ''DEFPOINTS'')],
       Point (Vector 1 0 0) [(''layer'', AStr ''DEFPOINTS'')]])"
proof -
  have init: "map_sum id (\<lambda>s. (ext1_line_start s, ext2_line_start s, dim_line_start s, dim_line_end s,
                     measurement s, self_text s, required_text_space s, force_text_inside s,
                     text_outside s, arrows_outside s, text_location s,
                     map_option center (text_box s)))
     (LinearDimension_init example_env (narrow_dimension example_style) example_block None None)
   = Inr (Vector 0 0 0, Vector 1 0 0, Vector 0 5 0, Vector 1 5 0,
          1, ''1'', Some 2.61, False,
          True, False, Some (Vector 0.5 5 0),
          Some (Vector 0.5 5 0))"
    by (simp add: narrow_dimension_def example_defs eval_defs format_text_one
        cong: bind_weak_cong let_weak_cong)
  have rendered: "map_sum id (\<lambda>r. (dxf_text_midpoint (fst r), entities (snd r)))
       (linear example_env (narrow_dimension example_style) example_block None None)
   = Inr (Some (Vector 0.5 5 0),
      [MText ''1''
        [(''layer'', AStr ''0''), (''color'', AInt 256),
         (''rotation'', AReal 0), (''style'', AStr ''STANDARD''),
         (''char_height'', AReal 1), (''insert'', AVec (Vector 0.5 5 0)),
         (''attachment_point'', AInt 5)],
       Line (Vector 0 0 0) (Vector 0 5 0)
        [(''layer'', AStr ''0''), (''color'', AInt 256), (''lineweight'', AInt (- 2))],
       Line (Vector 1 0 0) (Vector 1 5 0)
        [(''layer'', AStr ''0''), (''color'', AInt 256), (''lineweight'', AInt (- 2))],
       ArrowBlockRef ''OBLIQUE'' (Vector 0 5 0) 0.18 180 [(''color'', AInt 256)],
       ArrowBlockRef ''OBLIQUE'' (Vector 1 5 0) 0.18 0 [(''color'', AInt 256)],
       Line (Vector 0 5 0) (Vector 1 5 0)
        [(''layer'', AStr ''0''), (''color'', AInt 256), (''lineweight'', AInt (- 2))],
       Point (Vector 0 5 0) [(''layer'', AStr ''DEFPOINTS'')],
       Point (Vector 0 0 0) [(''layer'', AStr ''DEFPOINTS'')],
       Point (Vector 1 0 0) [(''layer'', AStr ''DEFPOINTS'')]])"
    by (simp add: narrow_dimension_def example_defs eval_defs format_text_one render_defs
        cong: bind_weak_cong let_weak_cong)
  from init rendered show ?thesis by (rule conjI)
qed

text \<open>
  The arrows decision is acted on. With arrow size 0.2 the arrows need
  2 * 0.2 + 0.625 = 1.025, more than the measurement 1, and \<^verbatim>\<open>add_arrows\<close> turns them
  round: the first arrow is inserted with rotation 0 and the second with rotation 180,
  where the example entity and the entity above have 180 and 0. The text stays where it
  was.
\<close>

lemma arrows_outside_are_turned:
  "map_sum id (\<lambda>s. (measurement s, required_arrows_space s, arrows_outside s, text_outside s))
     (LinearDimension_init example_env (narrow_dimension (example_style\<lparr>dimasz := 0.2\<rparr>))
        example_block None None)
   = Inr (1, 1.025, True, True)
   \<and> map_sum id (\<lambda>r. (dxf_text_midpoint (fst r), entities (snd r)))
       (linear example_env (narrow_dimension (example_style\<lparr>dimasz := 0.2\<rparr>)) example_block None None)
   = Inr (Some (Vector 0.5 5 0),
      [MText ''1''
        [(''layer'', AStr ''0''), (''color'', AInt 256),
         (''rotation'', AReal 0), (''style'', AStr ''STANDARD''),
         (''char_height'', AReal 1), (''insert'', AVec (Vector 0.5 5 0)),
         (''attachment_point'', AInt 5)],
       Line (Vector 0 0 0) (Vector 0 5 0)
        [(''layer'', AStr ''0''), (''color'', AInt 256), (''lineweight'', AInt (- 2))],
       Line (Vector 1 0 0) (Vector 1 5 0)
        [(''layer'', AStr ''0''), (''color'', AInt 256), (''lineweight'', AInt (- 2))],
       ArrowBlockRef ''OBLIQUE'' (Vector 0 5 0) 0.2 0 [(''color'', AInt 256)],
       ArrowBlockRef ''OBLIQUE'' (Vector 1 5 0) 0.2 180 [(''color'', AInt 256)],
       Line (Vector 0 5 0) (Vector 1 5 0)
        [(''layer'', AStr ''0''), (''color'', AInt 256), (''lineweight'', AInt (- 2))],
       Point (Vector 0 5 0) [(''layer'', AStr ''DEFPOINTS'')],
       Point (Vector 0 0 0) [(''layer'', AStr ''DEFPOINTS'')],
       Point (Vector 1 0 0) [(''layer'', AStr ''DEFPOINTS'')]])"
proof -
  have init: "map_sum id (\<lambda>s. (measurement s, required_arrows_space s, arrows_outside s, text_outside s))
     (LinearDimension_init example_env (narrow_dimension (example_style\<lparr>dimasz := 0.2\<rparr>))
        example_block None None)
   = Inr (1, 1.025, True, True)"
    by (simp add: narrow_dimension_def example_defs eval_defs format_text_one
        cong: bind_weak_cong let_weak_cong)
  have rendered: "map_sum id (\<lambda>r. (dxf_text_midpoint (fst r), entities (snd r)))
       (linear example_env (narrow_dimension (example_style\<lparr>dimasz := 0.2\<rparr>)) example_block None None)
   = Inr (Some (Vector 0.5 5 0),
      [MText ''1''
        [(''layer'', AStr ''0''), (''color'', AInt 256),
         (''rotation'', AReal 0), (''style'', AStr ''STANDARD''),
         (''char_height'', AReal 1), (''insert'', AVec (Vector 0.5 5 0)),
         (''attachment_point'', AInt 5)],
       Line (Vector 0 0 0) (Vector 0 5 0)
        [(''layer'', AStr ''0''), (''color'', AInt 256), (''lineweight'', AInt (- 2))],
       Line (Vector 1 0 0) (Vector 1 5 0)
        [(''layer'', AStr ''0''), (''color'', AInt 256), (''lineweight'', AInt (- 2))],
       ArrowBlockRef ''OBLIQUE'' (Vector 0 5 0) 0.2 0 [(''color'', AInt 256)],
       ArrowBlockRef ''OBLIQUE'' (Vector 1 5 0) 0.2 180 [(''color'', AInt 256)],
       Line (Vector 0 5 0) (Vector 1 5 0)
        [(''layer'', AStr ''0''), (''color'', AInt 256), (''lineweight'', AInt (- 2))],
       Point (Vector 0 5 0) [(''layer'', AStr ''DEFPOINTS'')],
       Point (Vector 0 0 0) [(''layer'', AStr ''DEFPOINTS'')],
       Point (Vector 1 0 0) [(''layer'', AStr ''DEFPOINTS'')]])"
    by (simp add: narrow_dimension_def example_defs eval_defs format_text_one render_defs
        cong: bind_weak_cong let_weak_cong)
  from init rendered show ?thesis by (rule conjI)
qed

end
